theory Spec2Isabelle
  imports Main
begin

section \<open>Errors and chain data\<close>

text \<open>
  A thrown JavaScript exception is a value of type \<open>error\<close>; a function that may throw
  (an \<open>async\<close> function that may reject) returns \<open>error + 'a\<close> with \<open>Inl\<close> the exception.
  \<open>null\<close> and \<open>undefined\<close> are \<open>None\<close>.
\<close>

datatype error = Error string | TypeError string

text \<open>Transactions, logs, receipts and blocks as the node returns them (ethers objects).\<close>

record transaction =
  tx_hash :: "string option"
  tx_to :: "string option"
  tx_from :: "string option"
  tx_data :: "string option"
  tx_gasPrice :: "int option"

record log_entry =
  log_address :: "string option"
  log_topics :: "string list"
  log_data :: "string option"

record receipt =
  rc_status :: "int option"
  rc_contractAddress :: "string option"
  rc_gasUsed :: "int option"
  rc_logs :: "log_entry list"

record block =
  blk_number :: int
  blk_hash :: string
  blk_timestamp :: int
  blk_transactions :: "transaction option list option"

text \<open>
  The JSON-RPC endpoint behind \<open>ethers.JsonRpcProvider\<close>: what each request answers
  (\<open>Inl\<close> when the request fails). The answers are a function of the request.
\<close>

record chain_node =
  rpc_getBlockNumber :: "error + int"
  rpc_getBlock :: "int \<Rightarrow> error + block option"
  rpc_getTransactionReceipt :: "string \<Rightarrow> error + receipt option"
  rpc_getCode :: "string \<Rightarrow> error + string option"

text \<open>
  The streaming endpoint behind \<open>wsUrl\<close>: whether the connection test \<open>getNetwork()\<close> of
  a provider created for it fails, and whether \<open>destroy()\<close> of such a provider throws.
\<close>

record ws_endpoint =
  ws_getNetwork_fails :: bool
  ws_destroy_throws :: bool

text \<open>
  The streaming provider object: whether its \<open>destroy()\<close> throws, whether
  \<open>setupWebSocketHandlers\<close> has registered its \<open>close\<close> listener on the socket, and the
  number of \<open>block\<close> listeners registered on it. \<open>WebSocketProvider\<close> is the constructor
  call \<open>new ethers.WebSocketProvider(wsUrl)\<close>.
\<close>

record wsock =
  destroy_throws :: bool
  close_handler :: bool
  block_listeners :: nat


text \<open>The network configuration; \<open>wsUrl\<close> is absent (\<open>None\<close>) or names a streaming endpoint.\<close>

record networkConfig =
  nc_name :: string
  nc_chainId :: int
  nc_wsUrl :: "ws_endpoint option"

section \<open>EthereumProvider\<close>

text \<open>
  The provider object. \<open>close_pending\<close> is not a field of the source: it holds the \<open>close\<close>
  event of a socket that has been closed and carries the \<open>close\<close> listener, until the
  event loop delivers it.
\<close>

record provider =
  rpc :: "chain_node option"
  wsProvider :: "wsock option"
  isConnected :: bool
  maxRetries :: int
  retryDelay :: int
  maxRetryDelay :: int
  close_pending :: bool

text \<open>The constructor: \<open>maxRetries\<close> comes from the configuration, the delays are fixed.\<close>

definition EthereumProvider :: "int \<Rightarrow> provider" where
  "EthereumProvider cfgMaxRetries =
     \<lparr>rpc = None, wsProvider = None, isConnected = False,
      maxRetries = cfgMaxRetries, retryDelay = 1000, maxRetryDelay = 30000,
      close_pending = False\<rparr>"

text \<open>
  \<open>withRetry\<close>. The operation is given by the outcome of its k-th invocation (k from 0).
  The loop carries \<open>attempt\<close>, \<open>delay\<close> and \<open>lastError\<close> as the source does, and the list of
  the delays slept so far. The result is the value returned or the exception thrown,
  the delays slept in order, and the number of invocations of the operation.
  When the loop body never runs (\<open>maxRetries < 0\<close>), \<open>lastError\<close> is undefined and
  reading \<open>lastError.message\<close> throws a TypeError.
\<close>

function withRetry_loop ::
  "int \<Rightarrow> int \<Rightarrow> (nat \<Rightarrow> error + 'a) \<Rightarrow> nat \<Rightarrow> int \<Rightarrow> error option \<Rightarrow> int list
     \<Rightarrow> (error + 'a) \<times> int list \<times> nat" where
  "withRetry_loop maxR maxDelay operation attempt delay lastError slept =
     (if int attempt \<le> maxR then
        (case operation attempt of
           Inr result \<Rightarrow> (Inr result, slept, Suc attempt)
         | Inl err \<Rightarrow>
             (if int attempt < maxR
              then withRetry_loop maxR maxDelay operation (Suc attempt)
                     (min (delay * 2) maxDelay) (Some err) (slept @ [delay])
              else withRetry_loop maxR maxDelay operation (Suc attempt)
                     delay (Some err) slept))
      else (case lastError of
              None \<Rightarrow> (Inl (TypeError ''Cannot read properties of undefined''), slept, attempt)
            | Some e \<Rightarrow> (Inl e, slept, attempt)))"
  by pat_completeness auto
termination
  by (relation "measure (\<lambda>(maxR, maxDelay, operation, attempt, delay, lastError, slept).
                   nat (maxR + 1 - int attempt))") auto

declare withRetry_loop.simps [simp del]

definition withRetry :: "provider \<Rightarrow> (nat \<Rightarrow> error + 'a) \<Rightarrow> (error + 'a) \<times> int list \<times> nat" where
  "withRetry p operation =
     withRetry_loop (maxRetries p) (maxRetryDelay p) operation 0 (retryDelay p) None []"

text \<open>
  A request to the endpoint: \<open>this.provider\<close> is null after \<open>disconnect()\<close>, and calling a
  method on it throws a TypeError inside the retried operation.
\<close>

definition rpc_call :: "provider \<Rightarrow> (chain_node \<Rightarrow> error + 'a) \<Rightarrow> error + 'a" where
  "rpc_call p request =
     fst (withRetry p (\<lambda>k. case rpc p of
                               None \<Rightarrow> Inl (TypeError ''Cannot read properties of null'')
                             | Some node \<Rightarrow> request node))"

definition getLatestBlockNumber :: "provider \<Rightarrow> error + int" where
  "getLatestBlockNumber p = rpc_call p rpc_getBlockNumber"

definition getBlock :: "provider \<Rightarrow> int \<Rightarrow> error + block option" where
  "getBlock p blockNumber = rpc_call p (\<lambda>node. rpc_getBlock node blockNumber)"

text \<open>A falsy hash (null, undefined or the empty string) is rejected before any request.\<close>

definition getTransactionReceipt :: "provider \<Rightarrow> string option \<Rightarrow> error + receipt option" where
  "getTransactionReceipt p txHash =
     (case txHash of
        None \<Rightarrow> Inl (Error ''Invalid transaction hash'')
      | Some h \<Rightarrow>
          if h = [] then Inl (Error ''Invalid transaction hash'')
          else rpc_call p (\<lambda>node. rpc_getTransactionReceipt node h))"

definition getCode :: "provider \<Rightarrow> string \<Rightarrow> error + string option" where
  "getCode p address = rpc_call p (\<lambda>node. rpc_getCode node address)"

text \<open>
  \<open>getBatchBlocks\<close>: one promise per block number, in order; \<open>Promise.allSettled\<close> gives
  the outcomes in the order of the promises; the fulfilled ones are pushed and the
  array is sorted by block number (a stable sort).
\<close>

definition getBatchBlocks :: "provider \<Rightarrow> int \<Rightarrow> int \<Rightarrow> error + (int \<times> block option) list" where
  "getBatchBlocks p startBlock endBlock =
     (let promises = map (\<lambda>blockNumber.
                            case getBlock p blockNumber of
                              Inl reason \<Rightarrow> Inl reason
                            | Inr blk \<Rightarrow> Inr (blockNumber, blk)) [startBlock..endBlock];
          blocks = fold (\<lambda>result acc. case result of
                                         Inr v \<Rightarrow> acc @ [v]
                                       | Inl reason \<Rightarrow> acc) promises []
      in Inr (sort_key fst blocks))"

definition isContractCreation :: "transaction \<Rightarrow> bool" where
  "isContractCreation tx = (tx_to tx = None)"

definition isContract :: "provider \<Rightarrow> string \<Rightarrow> bool" where
  "isContract p address =
     (case getCode p address of
        Inr code \<Rightarrow> code \<noteq> Some ''0x''
      | Inl e \<Rightarrow> False)"






text \<open>\<open>onNewBlock\<close> throws when there is no streaming provider.\<close>

definition onNewBlock :: "provider \<Rightarrow> error + provider" where
  "onNewBlock p =
     (case wsProvider p of
        None \<Rightarrow> Inl (Error ''WebSocket provider not initialized'')
      | Some ws \<Rightarrow> Inr (p\<lparr>wsProvider := Some (ws\<lparr>block_listeners := Suc (block_listeners ws)\<rparr>)\<rparr>))"


section \<open>ContractDetector\<close>

text \<open>
  The object built by \<open>extractContractData\<close>. \<open>creationType\<close> is set only on the factory
  and CREATE2 paths; a record of the direct path has no such property (\<open>None\<close>).
  \<open>gasUsed\<close> and \<open>gasPrice\<close> are kept as integers (the source converts them with
  \<open>Number\<close> and \<open>toString\<close>).
\<close>

record contractData =
  address :: string
  creatorAddress :: string
  transactionHash :: "string option"
  blockNumber :: int
  blockHash :: string
  blockTimestamp :: int
  gasUsed :: "int option"
  gasPrice :: "int option"
  contractSize :: int
  bytecodeHash :: string
  network :: string
  chainId :: int
  creationType :: "string option"

text \<open>
  The detector: its provider, the active network, the \<open>analyzeBytecode\<close> flag copied from
  the configuration, and the SHA-256 digest of the crypto library (a parameter).
\<close>

record detector =
  det_provider :: provider
  det_networkConfig :: networkConfig
  analyzeBytecode :: bool
  sha256_hex :: "string \<Rightarrow> string"

definition lower_char :: "char \<Rightarrow> char" where
  "lower_char c =
     (if (65::nat) \<le> of_char c \<and> of_char c \<le> (90::nat)
      then char_of (of_char c + (32::nat)) else c)"

definition toLowerCase :: "string \<Rightarrow> string" where
  "toLowerCase s = map lower_char s"

text \<open>\<open>String.prototype.includes\<close>.\<close>

fun str_includes :: "string \<Rightarrow> string \<Rightarrow> bool" where
  "str_includes [] pat = (pat = [])"
| "str_includes (c # cs) pat = (take (length pat) (c # cs) = pat \<or> str_includes cs pat)"

text \<open>A value used as a condition: null, undefined and the empty string are falsy.\<close>

definition truthy :: "string option \<Rightarrow> bool" where
  "truthy v = (case v of None \<Rightarrow> False | Some s \<Rightarrow> s \<noteq> [])"

definition nonzero :: "int option \<Rightarrow> int option" where
  "nonzero v = (case v of None \<Rightarrow> None | Some n \<Rightarrow> if n = 0 then None else Some n)"

text \<open>
  \<open>extractContractData\<close>. Every exception is caught and gives null:
  a failing \<open>getCode\<close>, \<open>transaction.from\<close> being undefined, and, when the
  \<open>analyzeBytecode\<close> flag is set, the call \<open>this.analyzeBytecode(bytecode, contractAddress)\<close>:
  \<open>this.analyzeBytecode\<close> is the boolean flag assigned in the constructor (the analysis
  method is named \<open>analyzeContractBytecode\<close>), so the call throws a TypeError.
\<close>

definition extractContractData ::
  "detector \<Rightarrow> transaction \<Rightarrow> receipt \<Rightarrow> block \<Rightarrow> string \<Rightarrow> contractData option" where
  "extractContractData d tx rc blk contractAddress =
     (case getCode (det_provider d) contractAddress of
        Inl e \<Rightarrow> None
      | Inr bytecode \<Rightarrow>
          if \<not> truthy bytecode \<or> bytecode = Some ''0x'' then None
          else
            (case tx_from tx of
               None \<Rightarrow> None
             | Some sender \<Rightarrow>
                 let contractData =
                       \<lparr>address = toLowerCase contractAddress,
                        creatorAddress = toLowerCase sender,
                        transactionHash = tx_hash tx,
                        blockNumber = blk_number blk,
                        blockHash = blk_hash blk,
                        blockTimestamp = blk_timestamp blk,
                        gasUsed = nonzero (rc_gasUsed rc),
                        gasPrice = nonzero (tx_gasPrice tx),
                        contractSize = (int (length (the bytecode)) - 2) div 2,
                        bytecodeHash = sha256_hex d (the bytecode),
                        network = nc_name (det_networkConfig d),
                        chainId = nc_chainId (det_networkConfig d),
                        creationType = None\<rparr>
                 in if analyzeBytecode d then None else Some contractData))"

text \<open>The regular expression \<open>/0x[a-fA-F0-9]{40}/\<close>: the first match, if any.\<close>

definition isHexDigit :: "char \<Rightarrow> bool" where
  "isHexDigit c = (c \<in> set ''0123456789abcdefABCDEF'')"

fun match_address :: "string \<Rightarrow> string option" where
  "match_address [] = None"
| "match_address (c # cs) =
     (if c = CHR ''0'' \<and> take 1 cs = ''x'' \<and> length (take 40 (drop 1 cs)) = 40
         \<and> list_all isHexDigit (take 40 (drop 1 cs))
      then Some (take 42 (c # cs))
      else match_address cs)"

definition extractAddressFromLog :: "log_entry \<Rightarrow> string option" where
  "extractAddressFromLog lg =
     (let fromTopic =
            (case log_topics lg of
               t0 # topic # rest \<Rightarrow>
                 if topic \<noteq> [] \<and> length topic = 66
                 then Some (''0x'' @ drop (length topic - 40) topic) else None
             | _ \<Rightarrow> None)
      in case fromTopic of
           Some a \<Rightarrow> Some a
         | None \<Rightarrow>
             (case log_data lg of
                Some data \<Rightarrow> if data \<noteq> [] \<and> 66 \<le> length data then match_address data else None
              | None \<Rightarrow> None))"

definition contractCreationTopics :: "string list" where
  "contractCreationTopics =
     [''0x4db17dd5e4732fb6da34a148104a592783ca119a1e7bb8829eba6cbadef0b511'',
      ''0x27b8e3132afa95254770e1c1d214eafde52bc47d1b6e1f5dfcb2d2c3c8b9f8c1'',
      ''0x8be0079c531659141344cd1fd0a4f28419497f9722a3daafe3b4186f6b6457e0'']"

text \<open>The body of the loop over the logs in \<open>detectCreate2Contracts\<close>.\<close>

definition create2_of_log ::
  "detector \<Rightarrow> transaction \<Rightarrow> receipt \<Rightarrow> block \<Rightarrow> log_entry \<Rightarrow> contractData list" where
  "create2_of_log d tx rc blk lg =
     (if truthy (log_address lg) \<and> log_address lg \<noteq> tx_to tx then
        (if isContract (det_provider d) (the (log_address lg)) then
           (case extractContractData d tx rc blk (the (log_address lg)) of
              Some contractData \<Rightarrow> [contractData\<lparr>creationType := Some ''create2''\<rparr>]
            | None \<Rightarrow> [])
         else [])
      else [])"

text \<open>\<open>transaction.data.includes\<close> on an undefined \<open>data\<close> throws; it is caught.\<close>

definition detectCreate2Contracts ::
  "detector \<Rightarrow> transaction \<Rightarrow> receipt \<Rightarrow> block \<Rightarrow> contractData list" where
  "detectCreate2Contracts d tx rc blk =
     (case tx_data tx of
        None \<Rightarrow> []
      | Some data \<Rightarrow>
          if str_includes data ''f5''
          then concat (map (create2_of_log d tx rc blk) (rc_logs rc))
          else [])"

text \<open>The body of the loop over the logs in \<open>detectFactoryContracts\<close>.\<close>

definition factory_of_log ::
  "detector \<Rightarrow> receipt \<Rightarrow> transaction \<Rightarrow> block \<Rightarrow> log_entry \<Rightarrow> contractData list" where
  "factory_of_log d rc tx blk lg =
     (case log_topics lg of
        [] \<Rightarrow> []
      | t0 # rest \<Rightarrow>
          if t0 \<in> set contractCreationTopics then
            (case extractAddressFromLog lg of
               None \<Rightarrow> []
             | Some contractAddress \<Rightarrow>
                 if contractAddress \<noteq> [] \<and> isContract (det_provider d) contractAddress then
                   (case extractContractData d tx rc blk contractAddress of
                      Some contractData \<Rightarrow> [contractData\<lparr>creationType := Some ''factory''\<rparr>]
                    | None \<Rightarrow> [])
                 else [])
          else [])"

definition detectFactoryContracts ::
  "detector \<Rightarrow> receipt \<Rightarrow> transaction \<Rightarrow> block \<Rightarrow> contractData list" where
  "detectFactoryContracts d rc tx blk =
     (let contracts = concat (map (factory_of_log d rc tx blk) (rc_logs rc))
      in if truthy (tx_data tx) \<and> 10 < length (the (tx_data tx))
         then contracts @ detectCreate2Contracts d tx rc blk
         else contracts)"

text \<open>
  \<open>processTransaction\<close>: the body of its \<open>try\<close>, where a failing receipt request is an
  exception, and the function itself, whose \<open>catch\<close> logs the exception and returns null.
\<close>

definition processTransaction_try ::
  "detector \<Rightarrow> transaction option \<Rightarrow> block \<Rightarrow> error + contractData list option" where
  "processTransaction_try d transaction blk =
     (case transaction of
        None \<Rightarrow> Inr None
      | Some tx \<Rightarrow>
          if \<not> truthy (tx_hash tx) then Inr None
          else if \<not> isContractCreation tx then Inr None
          else
            (case getTransactionReceipt (det_provider d) (tx_hash tx) of
               Inl e \<Rightarrow> Inl e
             | Inr None \<Rightarrow> Inr None
             | Inr (Some rc) \<Rightarrow>
                 if rc_status rc \<noteq> Some 1 then Inr None
                 else
                   let primary =
                         (if truthy (rc_contractAddress rc) then
                            (case extractContractData d tx rc blk (the (rc_contractAddress rc)) of
                               Some contractData \<Rightarrow> [contractData]
                             | None \<Rightarrow> [])
                          else [])
                   in Inr (Some (primary @ detectFactoryContracts d rc tx blk))))"

definition processTransaction ::
  "detector \<Rightarrow> transaction option \<Rightarrow> block \<Rightarrow> error + contractData list option" where
  "processTransaction d transaction blk =
     (case processTransaction_try d transaction blk of
        Inl e \<Rightarrow> Inr None
      | Inr r \<Rightarrow> Inr r)"

text \<open>
  The detector's \<open>processBlock\<close>: the body of its \<open>try\<close> and the function, whose \<open>catch\<close>
  returns the array. A rejected \<open>processTransaction\<close> promise is turned into null by the
  \<open>.catch\<close> handler; null results are skipped and arrays are appended.
\<close>

definition validTransaction :: "transaction option \<Rightarrow> bool" where
  "validTransaction t = (case t of None \<Rightarrow> False | Some tx \<Rightarrow> truthy (tx_hash tx))"

definition detector_processBlock_try :: "detector \<Rightarrow> block option \<Rightarrow> error + contractData list" where
  "detector_processBlock_try d b =
     (case b of
        None \<Rightarrow> Inr []
      | Some blk \<Rightarrow>
          (case blk_transactions blk of
             None \<Rightarrow> Inr []
           | Some txs \<Rightarrow>
               let validTransactions = filter validTransaction txs;
                   results = map (\<lambda>tx. case processTransaction d tx blk of
                                          Inl e \<Rightarrow> None
                                        | Inr r \<Rightarrow> r) validTransactions
               in Inr (fold (\<lambda>result contracts.
                               case result of
                                 None \<Rightarrow> contracts
                               | Some arr \<Rightarrow> contracts @ arr) results [])))"

definition detector_processBlock :: "detector \<Rightarrow> block option \<Rightarrow> error + contractData list" where
  "detector_processBlock d b =
     (case detector_processBlock_try d b of
        Inl e \<Rightarrow> Inr []
      | Inr contracts \<Rightarrow> Inr contracts)"


section \<open>Database\<close>

text \<open>
  The tables \<open>contracts\<close> and \<open>scanning_progress\<close> as lists of rows, oldest first.
  \<open>contracts.address\<close> is declared UNIQUE and \<open>scanning_progress.network\<close> has a unique
  index; these are the only uniqueness constraints besides the row ids. The timestamps
  \<open>created_at\<close> and \<open>updated_at\<close> are not modelled. The table has no column for
  \<open>creationType\<close>.
\<close>

record contract_row =
  row_id :: nat
  col_address :: string
  col_creator_address :: string
  col_transaction_hash :: "string option"
  col_block_number :: int
  col_block_hash :: string
  col_block_timestamp :: int
  col_gas_used :: "int option"
  col_gas_price :: "int option"
  col_contract_size :: int
  col_bytecode_hash :: string
  col_network :: string
  col_chain_id :: int

record progress_row =
  pr_network :: string
  pr_last_scanned_block :: int
  pr_scan_mode :: string

datatype statement =
    InsertContract contractData
  | InsertProgress string int string
  | SelectProgress string

text \<open>
  The database object: whether the sqlite handle is open, the \<open>isInitialized\<close> flag, the
  two tables, the next row id, and the engine's verdict on a statement (\<open>sqlite_err\<close>:
  the \<open>err\<close> argument of the callback is set, as for a locked file or a full disk).
\<close>

record database =
  db_open :: bool
  isInitialized :: bool
  contracts :: "contract_row list"
  next_id :: nat
  scanning_progress :: "progress_row list"
  sqlite_err :: "statement \<Rightarrow> bool"

definition row_of :: "nat \<Rightarrow> contractData \<Rightarrow> contract_row" where
  "row_of n c =
     \<lparr>row_id = n,
      col_address = address c,
      col_creator_address = creatorAddress c,
      col_transaction_hash = transactionHash c,
      col_block_number = blockNumber c,
      col_block_hash = blockHash c,
      col_block_timestamp = blockTimestamp c,
      col_gas_used = gasUsed c,
      col_gas_price = gasPrice c,
      col_contract_size = contractSize c,
      col_bytecode_hash = bytecodeHash c,
      col_network = network c,
      col_chain_id = chainId c\<rparr>"

text \<open>
  \<open>saveContract\<close>: INSERT OR REPLACE. A row that conflicts on the UNIQUE column
  \<open>address\<close> is deleted and the new row is inserted with a fresh id. A null in the
  NOT NULL column \<open>transaction_hash\<close> aborts the statement.
\<close>

definition saveContract :: "database \<Rightarrow> contractData \<Rightarrow> error + database" where
  "saveContract db c =
     (if \<not> isInitialized db then Inl (Error ''Database not initialized'')
      else if \<not> db_open db \<or> sqlite_err db (InsertContract c) \<or> transactionHash c = None
      then Inl (Error ''SQLITE_ERROR'')
      else Inr (db\<lparr>contracts := filter (\<lambda>r. col_address r \<noteq> address c) (contracts db)
                                     @ [row_of (next_id db) c],
                    next_id := Suc (next_id db)\<rparr>))"

definition updateScanningProgress :: "database \<Rightarrow> string \<Rightarrow> int \<Rightarrow> string \<Rightarrow> error + database" where
  "updateScanningProgress db net lastScannedBlock mode =
     (if \<not> isInitialized db then Inl (Error ''Database not initialized'')
      else if \<not> db_open db \<or> sqlite_err db (InsertProgress net lastScannedBlock mode)
      then Inl (Error ''SQLITE_ERROR'')
      else Inr (db\<lparr>scanning_progress :=
                      filter (\<lambda>r. pr_network r \<noteq> net) (scanning_progress db)
                      @ [\<lparr>pr_network = net, pr_last_scanned_block = lastScannedBlock,
                          pr_scan_mode = mode\<rparr>]\<rparr>))"

definition getScanningProgress :: "database \<Rightarrow> string \<Rightarrow> error + progress_row option" where
  "getScanningProgress db net =
     (if \<not> isInitialized db then Inl (Error ''Database not initialized'')
      else if \<not> db_open db \<or> sqlite_err db (SelectProgress net)
      then Inl (Error ''SQLITE_ERROR'')
      else Inr (find (\<lambda>r. pr_network r = net) (scanning_progress db)))"


section \<open>BlockScanner\<close>

datatype blockSpec = Latest | BlockNumber int

record scannerConfig =
  scanMode :: string
  startBlock :: blockSpec
  endBlock :: blockSpec
  batchSize :: int
  batchDelay :: int

record stats =
  blocksProcessed :: nat
  contractsFound :: nat
  errors :: nat

text \<open>
  A scanner after \<open>initialize()\<close>: the provider, detector and database objects exist.
  The detector holds a reference to the scanner's provider object, so \<open>the_detector\<close>
  gives it the scanner's current provider at each use. \<open>batchCalls\<close> records the
  arguments of every call of \<open>provider.getBatchBlocks\<close>, in order, \<open>journal\<close> the calls
  of \<open>database.saveContract\<close> and \<open>database.updateScanningProgress\<close> in the order in
  which the scanner makes them, each with its argument and whether it resolved. The
  clock readings \<open>startTime\<close> and \<open>lastBlockTime\<close> are not modelled. The flags \<open>isRunning\<close> and \<open>isPaused\<close>
  are changed only by \<open>start\<close>, \<open>pause\<close>, \<open>resume\<close> and \<open>stop\<close>; a scan is modelled
  without calls of \<open>pause\<close> or \<open>stop\<close> arriving while it awaits, so the flags it reads
  at each batch are those it started with.
\<close>

datatype db_call =
    SaveContract contractData bool
  | UpdateScanningProgress int bool

record scanner =
  networkConfig :: networkConfig
  scannerConfig :: scannerConfig
  provider :: provider
  detector :: detector
  database :: database
  isRunning :: bool
  isPaused :: bool
  currentBlock :: "int option"
  stats :: stats
  batchCalls :: "(int \<times> int) list"
  journal :: "db_call list"

definition the_detector :: "scanner \<Rightarrow> detector" where
  "the_detector sc = (detector sc)\<lparr>det_provider := provider sc\<rparr>"

definition count_error :: "scanner \<Rightarrow> scanner" where
  "count_error sc = sc\<lparr>stats := (stats sc)\<lparr>errors := Suc (errors (stats sc))\<rparr>\<rparr>"

text \<open>
  \<open>determineBlockRange\<close>. The saved progress is used when the row exists and its
  \<open>last_scanned_block\<close> is truthy, that is, not 0.
\<close>

definition resolve :: "blockSpec \<Rightarrow> int \<Rightarrow> int" where
  "resolve b latestBlock = (case b of Latest \<Rightarrow> latestBlock | BlockNumber n \<Rightarrow> n)"

definition determineBlockRange :: "scanner \<Rightarrow> error + (int \<times> int)" where
  "determineBlockRange sc =
     (case getLatestBlockNumber (provider sc) of
        Inl e \<Rightarrow> Inl e
      | Inr latestBlock \<Rightarrow>
          (case getScanningProgress (database sc) (nc_name (networkConfig sc)) of
             Inl e \<Rightarrow> Inl e
           | Inr progress \<Rightarrow>
               let startB = resolve (startBlock (scannerConfig sc)) latestBlock;
                   endB = resolve (endBlock (scannerConfig sc)) latestBlock;
                   startB = (case progress of
                               Some row \<Rightarrow>
                                 if pr_last_scanned_block row \<noteq> 0
                                 then max startB (pr_last_scanned_block row + 1)
                                 else startB
                             | None \<Rightarrow> startB)
               in if startB > endB then Inl (Error ''Invalid block range'')
                  else Inr (startB, endB)))"

text \<open>
  \<open>saveContracts\<close>: each save has its own \<open>catch\<close>, which logs the failure and yields
  false; the function then only logs a warning. No \<open>analysis\<close> property is ever present
  on a record (see \<open>extractContractData\<close>), so \<open>saveContractAnalysis\<close> is not called.
\<close>

definition saveContracts :: "scanner \<Rightarrow> contractData list \<Rightarrow> scanner" where
  "saveContracts sc cs =
     fold (\<lambda>contract sc'.
             case saveContract (database sc') contract of
               Inr saved \<Rightarrow> sc'\<lparr>database := saved,
                                journal := journal sc' @ [SaveContract contract True]\<rparr>
             | Inl e \<Rightarrow> sc'\<lparr>journal := journal sc' @ [SaveContract contract False]\<rparr>) cs sc"

text \<open>The scanner's \<open>processBlock\<close>; an exception of the detector is counted and rethrown.\<close>

definition scanner_processBlock :: "scanner \<Rightarrow> block option \<Rightarrow> (error + unit) \<times> scanner" where
  "scanner_processBlock sc b =
     (case b of
        None \<Rightarrow> (Inr (), sc)
      | Some blk \<Rightarrow>
          let sc1 = sc\<lparr>currentBlock := Some (blk_number blk)\<rparr>
          in (case detector_processBlock (the_detector sc1) (Some blk) of
                Inl e \<Rightarrow> (Inl e, count_error sc1)
              | Inr cs \<Rightarrow>
                  let sc2 = (if 0 < length cs
                             then let saved = saveContracts sc1 cs
                                  in saved\<lparr>stats := (stats saved)\<lparr>contractsFound :=
                                                contractsFound (stats saved) + length cs\<rparr>\<rparr>
                             else sc1)
                  in (Inr (), sc2\<lparr>stats := (stats sc2)\<lparr>blocksProcessed :=
                                      Suc (blocksProcessed (stats sc2))\<rparr>\<rparr>)))"

text \<open>
  \<open>processBatch\<close>: every fetched block is processed (all the promises are started);
  \<open>Promise.all\<close> rejects with the first exception. The blocks are taken in the order
  of the array.
\<close>

fun processBlocks :: "scanner \<Rightarrow> block option list \<Rightarrow> error option \<times> scanner" where
  "processBlocks sc [] = (None, sc)"
| "processBlocks sc (b # bs) =
     (case scanner_processBlock sc b of
        (Inl e, sc1) \<Rightarrow> (Some e, snd (processBlocks sc1 bs))
      | (Inr u, sc1) \<Rightarrow> processBlocks sc1 bs)"

definition processBatch :: "scanner \<Rightarrow> int \<Rightarrow> int \<Rightarrow> (error + unit) \<times> scanner" where
  "processBatch sc startB endB =
     (let sc1 = sc\<lparr>batchCalls := batchCalls sc @ [(startB, endB)]\<rparr>
      in case getBatchBlocks (provider sc1) startB endB of
           Inl e \<Rightarrow> (Inl e, sc1)
         | Inr blockResults \<Rightarrow>
             (case processBlocks sc1 (map snd blockResults) of
                (Some e, sc2) \<Rightarrow> (Inl e, sc2)
              | (None, sc2) \<Rightarrow> (Inr (), sc2)))"

text \<open>The body of the loop of \<open>scanBlockRange\<close>: one batch, then the progress update.\<close>

definition scanBatch :: "scanner \<Rightarrow> int \<Rightarrow> int \<Rightarrow> scanner" where
  "scanBatch sc currentStart currentEnd =
     (case processBatch sc currentStart currentEnd of
        (Inl e, sc1) \<Rightarrow> count_error sc1
      | (Inr u, sc1) \<Rightarrow>
          (case updateScanningProgress (database sc1) (nc_name (networkConfig sc1))
                  currentEnd (scanMode (scannerConfig sc1)) of
             Inl e \<Rightarrow> count_error
                        (sc1\<lparr>journal := journal sc1 @ [UpdateScanningProgress currentEnd False]\<rparr>)
           | Inr db \<Rightarrow> sc1\<lparr>database := db,
                           journal := journal sc1 @ [UpdateScanningProgress currentEnd True]\<rparr>))"

text \<open>
  \<open>scanBlockRange\<close>. With a batch size that is not positive the loop never leaves the
  range while the scanner runs: the result \<open>None\<close> is a scan that does not return.
\<close>

function scanBlockRange_loop :: "scanner \<Rightarrow> int \<Rightarrow> int \<Rightarrow> int \<Rightarrow> scanner option" where
  "scanBlockRange_loop sc bsize endB currentStart =
     (if currentStart \<le> endB then
        (if \<not> isRunning sc \<or> isPaused sc then Some sc
         else if bsize \<le> 0 then None
         else scanBlockRange_loop
                (scanBatch sc currentStart (min (currentStart + bsize - 1) endB))
                bsize endB (currentStart + bsize))
      else Some sc)"
  by pat_completeness auto
termination
  by (relation "measure (\<lambda>(sc, bsize, endB, currentStart). nat (endB + 1 - currentStart))") auto

declare scanBlockRange_loop.simps [simp del]

definition scanBlockRange :: "scanner \<Rightarrow> int \<Rightarrow> int \<Rightarrow> scanner option" where
  "scanBlockRange sc startB endB =
     scanBlockRange_loop sc (batchSize (scannerConfig sc)) endB startB"

definition startHistoricalScanning :: "scanner \<Rightarrow> ((error + unit) \<times> scanner) option" where
  "startHistoricalScanning sc =
     (case determineBlockRange sc of
        Inl e \<Rightarrow> Some (Inl e, sc)
      | Inr (startB, endB) \<Rightarrow>
          (case scanBlockRange sc startB endB of
             None \<Rightarrow> None
           | Some sc1 \<Rightarrow> Some (Inr (), sc1)))"

text \<open>\<open>startRealtimeScanning\<close> subscribes to new blocks and returns.\<close>

definition startRealtimeScanning :: "scanner \<Rightarrow> ((error + unit) \<times> scanner) option" where
  "startRealtimeScanning sc =
     (case onNewBlock (provider sc) of
        Inl e \<Rightarrow> Some (Inl e, sc)
      | Inr p \<Rightarrow> Some (Inr (), sc\<lparr>provider := p\<rparr>))"

definition startBothModes :: "scanner \<Rightarrow> ((error + unit) \<times> scanner) option" where
  "startBothModes sc =
     (case startHistoricalScanning sc of
        None \<Rightarrow> None
      | Some (Inl e, sc1) \<Rightarrow> Some (Inl e, sc1)
      | Some (Inr u, sc1) \<Rightarrow> startRealtimeScanning sc1)"

text \<open>
  \<open>start\<close>. Its synchronous prefix \<open>start_entry\<close> is the guard, whose only test is
  \<open>isRunning\<close>, and the assignment of the flag: the state that other callbacks
  (\<open>getStats\<close>, \<open>pause\<close>) observe while the scan awaits. Then the mode is dispatched,
  and an exception resets the flag and is rethrown.
\<close>

definition start_entry :: "scanner \<Rightarrow> scanner option" where
  "start_entry sc = (if isRunning sc then None else Some (sc\<lparr>isRunning := True\<rparr>))"

definition start :: "scanner \<Rightarrow> ((error + unit) \<times> scanner) option" where
  "start sc =
     (case start_entry sc of
        None \<Rightarrow> Some (Inr (), sc)
      | Some sc1 \<Rightarrow>
          let mode = scanMode (scannerConfig sc1);
              outcome =
                (if mode = ''realtime'' then startRealtimeScanning sc1
                 else if mode = ''historical'' then startHistoricalScanning sc1
                 else if mode = ''both'' then startBothModes sc1
                 else Some (Inl (Error ''Invalid scan mode''), sc1))
          in case outcome of
               None \<Rightarrow> None
             | Some (Inl e, sc2) \<Rightarrow> Some (Inl e, sc2\<lparr>isRunning := False\<rparr>)
             | Some (Inr u, sc2) \<Rightarrow> Some (Inr u, sc2))"

definition pause :: "scanner \<Rightarrow> scanner" where
  "pause sc = (if \<not> isRunning sc then sc else sc\<lparr>isPaused := True\<rparr>)"

definition resume :: "scanner \<Rightarrow> scanner" where
  "resume sc = (if \<not> isRunning sc then sc else sc\<lparr>isPaused := False\<rparr>)"



section \<open>Auxiliary notions\<close>

text \<open>The delay slept after the failed attempt number \<open>k\<close> (from 0).\<close>

definition backoff :: "nat \<Rightarrow> int" where
  "backoff k = min (1000 * 2 ^ k) 30000"

text \<open>The records that one transaction of a block contributes to the block's result.\<close>

definition records_of :: "detector \<Rightarrow> block \<Rightarrow> transaction option \<Rightarrow> contractData list" where
  "records_of d blk t =
     (case processTransaction_try d t blk of
        Inr (Some arr) \<Rightarrow> arr
      | _ \<Rightarrow> [])"

text \<open>Two saves in a row, the second only if the first succeeded.\<close>

definition save_twice :: "database \<Rightarrow> contractData \<Rightarrow> contractData \<Rightarrow> error + database" where
  "save_twice db r1 r2 =
     (case saveContract db r1 of
        Inl e \<Rightarrow> Inl e
      | Inr db1 \<Rightarrow> saveContract db1 r2)"

text \<open>The addresses stored in \<open>contracts\<close>, and when the engine or a constraint rejects a save.\<close>

definition stored_addresses :: "database \<Rightarrow> string set" where
  "stored_addresses db = set (map col_address (contracts db))"

definition save_rejected :: "database \<Rightarrow> contractData \<Rightarrow> bool" where
  "save_rejected db c =
     (\<not> isInitialized db \<or> \<not> db_open db \<or> sqlite_err db (InsertContract c)
      \<or> transactionHash c = None)"

text \<open>
  The database after a save has been attempted for each record of a list in turn, a
  rejected save leaving it as it was.
\<close>

definition saved_all :: "database \<Rightarrow> contractData list \<Rightarrow> database" where
  "saved_all db cs =
     fold (\<lambda>c db'. case saveContract db' c of Inr saved \<Rightarrow> saved | Inl e \<Rightarrow> db') cs db"

text \<open>The saved checkpoint of the scanner's network, and when its update is rejected.\<close>

definition checkpoint :: "scanner \<Rightarrow> int option" where
  "checkpoint sc =
     map_option pr_last_scanned_block
       (find (\<lambda>r. pr_network r = nc_name (networkConfig sc)) (scanning_progress (database sc)))"

definition progress_rejected :: "scanner \<Rightarrow> int \<Rightarrow> bool" where
  "progress_rejected sc currentEnd =
     (\<not> isInitialized (database sc) \<or> \<not> db_open (database sc)
      \<or> sqlite_err (database sc)
           (InsertProgress (nc_name (networkConfig sc)) currentEnd (scanMode (scannerConfig sc))))"

text \<open>
  What processing blocks leaves alone: the engine side of the database, and the
  scanner's configuration, provider, detector and flags.
\<close>

definition same_engine :: "database \<Rightarrow> database \<Rightarrow> bool" where
  "same_engine db db' =
     (isInitialized db' = isInitialized db \<and> db_open db' = db_open db
      \<and> sqlite_err db' = sqlite_err db \<and> scanning_progress db' = scanning_progress db)"

definition same_setup :: "scanner \<Rightarrow> scanner \<Rightarrow> bool" where
  "same_setup sc sc' =
     (networkConfig sc' = networkConfig sc \<and> scannerConfig sc' = scannerConfig sc
      \<and> provider sc' = provider sc \<and> detector sc' = detector sc
      \<and> isRunning sc' = isRunning sc \<and> isPaused sc' = isPaused sc)"

text \<open>
  The records that the scanner's detector returns for a fetched block (none for a
  block that is null), and those of all the blocks of a fetched batch, in order.
\<close>

definition detected :: "scanner \<Rightarrow> block option \<Rightarrow> contractData list" where
  "detected sc b =
     (case b of
        None \<Rightarrow> []
      | Some blk \<Rightarrow>
          (case detector_processBlock (the_detector sc) (Some blk) of
             Inr cs \<Rightarrow> cs
           | Inl e \<Rightarrow> []))"

definition batch_records :: "scanner \<Rightarrow> (int \<times> block option) list \<Rightarrow> contractData list" where
  "batch_records sc blockResults = concat (map (\<lambda>(n, b). detected sc b) blockResults)"

text \<open>
  The block numbers covered by a list of batch calls, in order, and the batch calls
  recorded once \<open>start\<close> has returned.
\<close>

definition blocks_of :: "(int \<times> int) list \<Rightarrow> int list" where
  "blocks_of calls = concat (map (\<lambda>(a, b). [a..b]) calls)"

definition calls_made :: "((error + unit) \<times> scanner) option \<Rightarrow> (int \<times> int) list option" where
  "calls_made outcome = map_option (\<lambda>r. batchCalls (snd r)) outcome"

section \<open>Example inputs\<close>

text \<open>An operation that always times out, and one that succeeds at its third invocation.\<close>

definition always_failing :: "nat \<Rightarrow> error + int" where
  "always_failing k = Inl (Error ''timeout'')"

definition fails_twice :: "nat \<Rightarrow> error + int" where
  "fails_twice k = (if k < 2 then Inl (Error ''timeout'') else Inr 7)"

text \<open>An endpoint that serves empty blocks, except block 102, whose request fails.\<close>

definition empty_block :: "int \<Rightarrow> block" where
  "empty_block n = \<lparr>blk_number = n, blk_hash = ''0xb'', blk_timestamp = 1700000000 + n,
                     blk_transactions = Some []\<rparr>"

definition gappy_node :: chain_node where
  "gappy_node =
     \<lparr>rpc_getBlockNumber = Inr 103,
      rpc_getBlock = (\<lambda>n. if n = 102 then Inl (Error ''timeout'') else Inr (Some (empty_block n))),
      rpc_getTransactionReceipt = (\<lambda>h. Inr None),
      rpc_getCode = (\<lambda>a. Inr (Some ''0x''))\<rparr>"

definition gappy_provider :: provider where
  "gappy_provider = (EthereumProvider 3)\<lparr>rpc := Some gappy_node, isConnected := True\<rparr>"

text \<open>
  A block with five transactions: a deployment whose receipt has one log, emitted by the
  new contract; a reverted deployment; a deployment whose receipt request fails; a call
  of a factory that emits a ContractCreated event for a child contract; and a deployment
  whose receipt carries such an event. The stand-in digest prefixes its input.
\<close>

definition deploy_tx :: transaction where
  "deploy_tx = \<lparr>tx_hash = Some ''0xaaa'', tx_to = None, tx_from = Some ''0xDeployer'',
                 tx_data = Some ''0x6080604052f5ab'', tx_gasPrice = Some 20\<rparr>"

definition deploy_log :: log_entry where
  "deploy_log = \<lparr>log_address = Some ''0xC0DE'', log_topics = [], log_data = None\<rparr>"

definition deploy_receipt :: receipt where
  "deploy_receipt = \<lparr>rc_status = Some 1, rc_contractAddress = Some ''0xC0DE'',
                      rc_gasUsed = Some 21000, rc_logs = [deploy_log]\<rparr>"

definition reverted_tx :: transaction where
  "reverted_tx = \<lparr>tx_hash = Some ''0xbbb'', tx_to = None, tx_from = Some ''0xDeployer'',
                   tx_data = Some ''0x60'', tx_gasPrice = Some 20\<rparr>"

definition reverted_receipt :: receipt where
  "reverted_receipt = \<lparr>rc_status = Some 0, rc_contractAddress = Some ''0xC0DE'',
                        rc_gasUsed = Some 21000, rc_logs = []\<rparr>"

definition unlucky_tx :: transaction where
  "unlucky_tx = \<lparr>tx_hash = Some ''0xccc'', tx_to = None, tx_from = Some ''0xDeployer'',
                  tx_data = Some ''0x60'', tx_gasPrice = Some 20\<rparr>"

definition child_address :: string where
  "child_address = ''0xc0ffee0000000000000000000000000000000000''"

definition created_log :: log_entry where
  "created_log =
     \<lparr>log_address = Some ''0xFAC'',
      log_topics = [''0x4db17dd5e4732fb6da34a148104a592783ca119a1e7bb8829eba6cbadef0b511'',
                    ''0x000000000000000000000000c0ffee0000000000000000000000000000000000''],
      log_data = None\<rparr>"

definition factory_call_tx :: transaction where
  "factory_call_tx = \<lparr>tx_hash = Some ''0xddd'', tx_to = Some ''0xFAC'',
                       tx_from = Some ''0xDeployer'', tx_data = Some ''0x60'',
                       tx_gasPrice = Some 20\<rparr>"

definition factory_call_receipt :: receipt where
  "factory_call_receipt = \<lparr>rc_status = Some 1, rc_contractAddress = None,
                            rc_gasUsed = Some 50000, rc_logs = [created_log]\<rparr>"

definition deploy_with_event_tx :: transaction where
  "deploy_with_event_tx = \<lparr>tx_hash = Some ''0xeee'', tx_to = None,
                            tx_from = Some ''0xDeployer'', tx_data = Some ''0x60'',
                            tx_gasPrice = Some 20\<rparr>"

definition deploy_with_event_receipt :: receipt where
  "deploy_with_event_receipt = \<lparr>rc_status = Some 1, rc_contractAddress = None,
                                 rc_gasUsed = Some 50000, rc_logs = [created_log]\<rparr>"

definition example_block :: block where
  "example_block = \<lparr>blk_number = 100, blk_hash = ''0xb100'', blk_timestamp = 1700000100,
                     blk_transactions = Some [Some deploy_tx, Some reverted_tx,
                                              Some unlucky_tx, Some factory_call_tx,
                                              Some deploy_with_event_tx]\<rparr>"

definition example_node :: chain_node where
  "example_node =
     \<lparr>rpc_getBlockNumber = Inr 100,
      rpc_getBlock = (\<lambda>n. if n = 100 then Inr (Some example_block)
                          else Inr (Some (empty_block n))),
      rpc_getTransactionReceipt =
        (\<lambda>h. if h = ''0xaaa'' then Inr (Some deploy_receipt)
              else if h = ''0xbbb'' then Inr (Some reverted_receipt)
              else if h = ''0xccc'' then Inl (Error ''timeout'')
              else if h = ''0xddd'' then Inr (Some factory_call_receipt)
              else if h = ''0xeee'' then Inr (Some deploy_with_event_receipt)
              else Inr None),
      rpc_getCode =
        (\<lambda>a. if a = ''0xC0DE'' \<or> a = child_address then Inr (Some ''0x6001'')
              else Inr (Some ''0x''))\<rparr>"

definition example_provider :: provider where
  "example_provider = (EthereumProvider 3)\<lparr>rpc := Some example_node, isConnected := True\<rparr>"

definition mainnet :: networkConfig where
  "mainnet = \<lparr>nc_name = ''Ethereum Mainnet'', nc_chainId = 1, nc_wsUrl = None\<rparr>"

definition stand_in_digest :: "string \<Rightarrow> string" where
  "stand_in_digest s = CHR ''#'' # s"

definition example_detector :: detector where
  "example_detector = \<lparr>det_provider = example_provider, det_networkConfig = mainnet,
                        analyzeBytecode = False, sha256_hex = stand_in_digest\<rparr>"

definition analysing_detector :: detector where
  "analysing_detector = example_detector\<lparr>analyzeBytecode := True\<rparr>"

text \<open>The record of the direct path for \<open>deploy_tx\<close> in \<open>example_block\<close>.\<close>

definition deploy_record :: contractData where
  "deploy_record =
     \<lparr>address = ''0xc0de'', creatorAddress = ''0xdeployer'', transactionHash = Some ''0xaaa'',
      blockNumber = 100, blockHash = ''0xb100'', blockTimestamp = 1700000100,
      gasUsed = Some 21000, gasPrice = Some 20, contractSize = 2,
      bytecodeHash = ''#0x6001'', network = ''Ethereum Mainnet'', chainId = 1,
      creationType = None\<rparr>"

text \<open>
  The same address deployed on another network, an engine that accepts every statement,
  one that rejects every insert into \<open>contracts\<close>, and an empty open database.
\<close>

definition polygon_record :: contractData where
  "polygon_record = deploy_record\<lparr>network := ''Polygon Mainnet'', chainId := 137,
                                  transactionHash := Some ''0xfff''\<rparr>"

definition accepts_all :: "statement \<Rightarrow> bool" where
  "accepts_all s = False"

definition rejects_inserts :: "statement \<Rightarrow> bool" where
  "rejects_inserts s = (case s of InsertContract c \<Rightarrow> True | _ \<Rightarrow> False)"

definition empty_db :: database where
  "empty_db = \<lparr>db_open = True, isInitialized = True, contracts = [], next_id = 1,
               scanning_progress = [], sqlite_err = accepts_all\<rparr>"

text \<open>
  A running scanner over the example endpoint with an empty database, the same with a
  database that rejects every insert, and a scanner not yet started, configured for
  the range [0, 0], whose database holds the checkpoint 0.
\<close>

definition no_stats :: stats where
  "no_stats = \<lparr>blocksProcessed = 0, contractsFound = 0, errors = 0\<rparr>"

definition example_scanner :: scanner where
  "example_scanner =
     \<lparr>networkConfig = mainnet,
      scannerConfig = \<lparr>scanMode = ''historical'', startBlock = BlockNumber 100,
                       endBlock = BlockNumber 103, batchSize = 2, batchDelay = 0\<rparr>,
      provider = example_provider,
      detector = example_detector,
      database = empty_db,
      isRunning = True, isPaused = False, currentBlock = None, stats = no_stats,
      batchCalls = [], journal = []\<rparr>"

definition faulty_scanner :: scanner where
  "faulty_scanner = example_scanner\<lparr>database := empty_db\<lparr>sqlite_err := rejects_inserts\<rparr>\<rparr>"

definition genesis_scanner :: scanner where
  "genesis_scanner =
     example_scanner
       \<lparr>scannerConfig := \<lparr>scanMode = ''historical'', startBlock = BlockNumber 0,
                          endBlock = BlockNumber 0, batchSize = 100, batchDelay = 0\<rparr>,
        database := empty_db\<lparr>scanning_progress :=
                      [\<lparr>pr_network = ''Ethereum Mainnet'', pr_last_scanned_block = 0,
                        pr_scan_mode = ''historical''\<rparr>]\<rparr>,
        isRunning := False\<rparr>"




section \<open>The retry policy and the batch fetch\<close>

lemma backoff_Suc: "min (backoff k * 2) 30000 = backoff (Suc k)"
  by (simp add: backoff_def min_def)

lemma withRetry_loop_exit:
  "\<not> int a \<le> m \<Longrightarrow> withRetry_loop m d op a dl (Some e) sl = (Inl e, sl, a)"
  by (simp add: withRetry_loop.simps)

lemma withRetry_loop_inv:
  "int a \<le> m \<Longrightarrow>
   (case withRetry_loop m 30000 op a (backoff a) le (map backoff [0..<a]) of
      (res, slept, calls) \<Rightarrow>
        a < calls \<and> int calls \<le> m + 1 \<and> slept = map backoff [0..<calls - 1] \<and>
        res = op (calls - 1) \<and> (\<forall>k. a \<le> k \<and> k < calls - 1 \<longrightarrow> isl (op k)) \<and>
        (isl res \<longrightarrow> int calls = m + 1))"
proof (induction "nat (m - int a)" arbitrary: a le)
  case 0
  then have am: "int a = m" by simp
  show ?case
  proof (cases "op a")
    case (Inl e)
    have "withRetry_loop m 30000 op a (backoff a) le (map backoff [0..<a])
          = withRetry_loop m 30000 op (Suc a) (backoff a) (Some e) (map backoff [0..<a])"
      using am Inl by (subst withRetry_loop.simps) simp
    also have "\<dots> = (Inl e, map backoff [0..<a], Suc a)"
      using am by (simp add: withRetry_loop_exit)
    finally show ?thesis using am Inl by auto
  next
    case (Inr v)
    have "withRetry_loop m 30000 op a (backoff a) le (map backoff [0..<a])
          = (Inr v, map backoff [0..<a], Suc a)"
      using am Inr by (subst withRetry_loop.simps) simp
    then show ?thesis using am Inr by auto
  qed
next
  case (Suc n)
  then have lt: "int a < m" by linarith
  show ?case
  proof (cases "op a")
    case (Inl e)
    have step: "withRetry_loop m 30000 op a (backoff a) le (map backoff [0..<a])
          = withRetry_loop m 30000 op (Suc a) (backoff (Suc a)) (Some e) (map backoff [0..<Suc a])"
      using lt Inl by (subst withRetry_loop.simps) (simp add: backoff_Suc)
    have "n = nat (m - int (Suc a))" using Suc.hyps(2) by linarith
    moreover have "int (Suc a) \<le> m" using lt by simp
    ultimately have IH: "(case withRetry_loop m 30000 op (Suc a) (backoff (Suc a)) (Some e) (map backoff [0..<Suc a]) of
      (res, slept, calls) \<Rightarrow>
        Suc a < calls \<and> int calls \<le> m + 1 \<and> slept = map backoff [0..<calls - 1] \<and>
        res = op (calls - 1) \<and> (\<forall>k. Suc a \<le> k \<and> k < calls - 1 \<longrightarrow> isl (op k)) \<and>
        (isl res \<longrightarrow> int calls = m + 1))"
      by (rule Suc.hyps(1))
    show ?thesis
      unfolding step using IH Inl
      apply (auto split: prod.splits)
      subgoal for c k by (cases "k = a") auto
      subgoal for c k by (cases "k = a") auto
      done
  next
    case (Inr v)
    have "withRetry_loop m 30000 op a (backoff a) le (map backoff [0..<a])
          = (Inr v, map backoff [0..<a], Suc a)"
      using lt Inr by (subst withRetry_loop.simps) simp
    then show ?thesis using lt Inr by auto
  qed
qed

text \<open>Retrying a request whose answer does not change gives that answer.\<close>

lemma withRetry_loop_const:
  "int a \<le> m \<Longrightarrow> fst (withRetry_loop m md (\<lambda>k. x) a d le sl) = x"
proof (induction "nat (m - int a)" arbitrary: a d le sl)
  case 0
  then have am: "int a = m" by simp
  show ?case
  proof (cases x)
    case (Inl e)
    have "withRetry_loop m md (\<lambda>k. x) a d le sl = withRetry_loop m md (\<lambda>k. x) (Suc a) d (Some e) sl"
      using am Inl by (subst withRetry_loop.simps) simp
    also have "\<dots> = (Inl e, sl, Suc a)"
      using am by (simp add: withRetry_loop_exit)
    finally show ?thesis using Inl by simp
  next
    case (Inr v)
    then show ?thesis using am by (subst withRetry_loop.simps) simp
  qed
next
  case (Suc n)
  then have lt: "int a < m" by linarith
  show ?case
  proof (cases x)
    case (Inl e)
    have step: "withRetry_loop m md (\<lambda>k. x) a d le sl
          = withRetry_loop m md (\<lambda>k. x) (Suc a) (min (d * 2) md) (Some e) (sl @ [d])"
      using lt Inl by (subst withRetry_loop.simps) simp
    have "n = nat (m - int (Suc a))" using Suc.hyps(2) by linarith
    moreover have "int (Suc a) \<le> m" using lt by simp
    ultimately show ?thesis unfolding step by (rule Suc.hyps(1))
  next
    case (Inr v)
    then show ?thesis using lt by (subst withRetry_loop.simps) simp
  qed
qed

lemma rpc_call_eq:
  "0 \<le> maxRetries p \<Longrightarrow>
   rpc_call p request =
     (case rpc p of None \<Rightarrow> Inl (TypeError ''Cannot read properties of null'')
                  | Some node \<Rightarrow> request node)"
  unfolding rpc_call_def withRetry_def by (rule withRetry_loop_const) simp

lemma rpc_call_neg:
  "maxRetries p < 0 \<Longrightarrow>
   rpc_call p request = Inl (TypeError ''Cannot read properties of undefined'')"
  unfolding rpc_call_def withRetry_def by (subst withRetry_loop.simps) simp

lemma rpc_call_Inr:
  "rpc_call p request = Inr v \<Longrightarrow> \<exists>node. rpc p = Some node \<and> request node = Inr v"
  by (cases "0 \<le> maxRetries p") (auto simp: rpc_call_eq rpc_call_neg split: option.splits)

text \<open>
  Claim C7, as the code has it. \<open>maxRetries\<close> counts the retries, not the attempts: a call
  through \<open>withRetry\<close> invokes the operation at least once and at most \<open>maxRetries + 1\<close>
  times. The delay slept after the i-th failed attempt (i from 0) is
  \<open>min (1000 * 2 ^ i) 30000\<close> milliseconds: it starts at 1000, doubles, and is capped at
  30000. The result is the outcome of the last invocation: every earlier invocation
  failed, and an exception is thrown only after \<open>maxRetries + 1\<close> invocations, and it is
  the exception of the last one.
\<close>

theorem withRetry_attempts_backoff_last_error:
  assumes "0 \<le> m"
    and "withRetry (EthereumProvider m) operation = (res, slept, calls)"
  shows "1 \<le> calls \<and> int calls \<le> m + 1
       \<and> slept = map (\<lambda>i. min (1000 * 2 ^ i) 30000) [0..<calls - 1]
       \<and> res = operation (calls - 1)
       \<and> (\<forall>k<calls - 1. isl (operation k))
       \<and> (isl res \<longrightarrow> int calls = m + 1)"
proof -
  have "case withRetry_loop m 30000 operation 0 (backoff 0) None (map backoff [0..<0]) of
      (res, slept, calls) \<Rightarrow>
        0 < calls \<and> int calls \<le> m + 1 \<and> slept = map backoff [0..<calls - 1] \<and>
        res = operation (calls - 1) \<and> (\<forall>k. 0 \<le> k \<and> k < calls - 1 \<longrightarrow> isl (operation k)) \<and>
        (isl res \<longrightarrow> int calls = m + 1)"
    using assms(1) by (intro withRetry_loop_inv) simp
  moreover have "withRetry (EthereumProvider m) operation
      = withRetry_loop m 30000 operation 0 (backoff 0) None (map backoff [0..<0])"
    by (simp add: withRetry_def EthereumProvider_def backoff_def)
  moreover have "backoff = (\<lambda>i. min (1000 * 2 ^ i) 30000)"
    by (rule ext) (simp add: backoff_def)
  ultimately show ?thesis using assms(2) by auto
qed

lemma fails_twice_run:
  "withRetry (EthereumProvider 3) fails_twice = (Inr 7, [1000, 2000], 3)"
  by (simp add: withRetry_def EthereumProvider_def withRetry_loop.simps fails_twice_def)

theorem withRetry_attempts_backoff_last_error_witness:
  "(0::int) \<le> 3 \<and> withRetry (EthereumProvider 3) fails_twice = (Inr 7, [1000, 2000], 3)
   \<and> (1::nat) \<le> 3 \<and> int 3 \<le> 3 + 1
   \<and> [1000, 2000 :: int] = map (\<lambda>i. min (1000 * 2 ^ i) 30000) [0..<3 - 1]
   \<and> Inr 7 = fails_twice (3 - 1)
   \<and> isl (fails_twice 0) \<and> isl (fails_twice 1)"
proof -
  have h1: "(0::int) \<le> 3" by simp
  note h2 = fails_twice_run
  show ?thesis using withRetry_attempts_backoff_last_error [OF h1 h2] h2 by (simp add: fails_twice_def)
qed

text \<open>
  Claim C7 as stated (at most \<open>maxRetries\<close> attempts) fails: with \<open>maxRetries = 3\<close> an
  operation that always fails is invoked four times.
\<close>

theorem withRetry_attempts_counterexample:
  "\<not> snd (snd (withRetry (EthereumProvider 3) always_failing)) \<le> 3"
  by (simp add: withRetry_def EthereumProvider_def withRetry_loop.simps always_failing_def)

lemma getBatch_pushed:
  "fold (\<lambda>result acc. case result of Inr v \<Rightarrow> acc @ [v] | Inl reason \<Rightarrow> acc)
        (map (\<lambda>blockNumber. case getBlock p blockNumber of
                                Inl reason \<Rightarrow> Inl reason
                              | Inr blk \<Rightarrow> Inr (blockNumber, blk)) ns) acc0
   = acc0 @ concat (map (\<lambda>n. case getBlock p n of Inr b \<Rightarrow> [(n, b)] | Inl err \<Rightarrow> []) ns)"
  by (induction ns arbitrary: acc0) (auto split: sum.splits)

lemma fetched_keys:
  "map fst (concat (map (\<lambda>n. case getBlock p n of Inr b \<Rightarrow> [(n, b)] | Inl e \<Rightarrow> []) ns))
   = filter (\<lambda>n. \<not> isl (getBlock p n)) ns"
  by (induction ns) (auto split: sum.splits)

text \<open>
  Claim C9. \<open>getBatchBlocks\<close> never throws. It returns the pairs of a block number in
  \<open>[startBlock, endBlock]\<close> and the block fetched for it, for exactly the numbers whose
  \<open>getBlock\<close> succeeded, each once, in ascending order of block number.
\<close>

theorem getBatchBlocks_successes_in_order:
  "\<exists>bs. getBatchBlocks p s e = Inr bs
       \<and> bs = concat (map (\<lambda>n. case getBlock p n of Inr b \<Rightarrow> [(n, b)] | Inl err \<Rightarrow> []) [s..e])
       \<and> sorted (map fst bs) \<and> distinct (map fst bs)
       \<and> set bs = {(n, b). s \<le> n \<and> n \<le> e \<and> getBlock p n = Inr b}"
proof -
  let ?bs = "concat (map (\<lambda>n. case getBlock p n of Inr b \<Rightarrow> [(n, b)] | Inl err \<Rightarrow> []) [s..e])"
  have keys: "map fst ?bs = filter (\<lambda>n. \<not> isl (getBlock p n)) [s..e]"
    by (rule fetched_keys)
  have srt: "sorted (map fst ?bs)" unfolding keys by (simp add: sorted_filter[where f=id, simplified])
  have dst: "distinct (map fst ?bs)" unfolding keys by simp
  have "getBatchBlocks p s e = Inr (sort_key fst ?bs)"
    unfolding getBatchBlocks_def Let_def getBatch_pushed by simp
  moreover have "sort_key fst ?bs = ?bs" using srt by (rule sort_key_id_if_sorted)
  moreover have "set ?bs = {(n, b). s \<le> n \<and> n \<le> e \<and> getBlock p n = Inr b}"
    by (auto split: sum.splits)
  ultimately show ?thesis using srt dst by simp
qed

lemma gappy_getBlock: "getBlock gappy_provider n = rpc_getBlock gappy_node n"
  by (simp add: getBlock_def rpc_call_eq gappy_provider_def EthereumProvider_def)

theorem getBatchBlocks_successes_in_order_witness:
  "getBatchBlocks gappy_provider 100 103 =
     Inr [(100, Some (empty_block 100)), (101, Some (empty_block 101)),
          (103, Some (empty_block 103))]"
  using getBatchBlocks_successes_in_order [of gappy_provider 100 103]
  by (auto simp: gappy_getBlock gappy_node_def)

section \<open>The detector\<close>

lemma extract_Some:
  assumes "extractContractData d tx rc blk a = Some c"
  shows "\<exists>code. getCode (det_provider d) a = Inr (Some code) \<and> code \<noteq> [] \<and> code \<noteq> ''0x''
       \<and> address c = toLowerCase a \<and> bytecodeHash c = sha256_hex d code
       \<and> contractSize c = (int (length code) - 2) div 2
       \<and> creationType c = None \<and> \<not> analyzeBytecode d"
  using assms
  by (auto simp: extractContractData_def truthy_def Let_def
           split: sum.splits option.splits if_splits)

lemma extract_None:
  "getCode (det_provider d) a = Inr None \<or> getCode (det_provider d) a = Inr (Some ''0x'')
   \<Longrightarrow> extractContractData d tx rc blk a = None"
  by (auto simp: extractContractData_def truthy_def split: sum.splits)

lemma factory_of_log_cases:
  "factory_of_log d rc tx blk lg = [] \<or>
     (\<exists>t0 rest a. log_topics lg = t0 # rest \<and> t0 \<in> set contractCreationTopics
        \<and> extractAddressFromLog lg = Some a \<and> a \<noteq> [] \<and> isContract (det_provider d) a
        \<and> extractContractData d tx rc blk a \<noteq> None
        \<and> factory_of_log d rc tx blk lg =
            [(the (extractContractData d tx rc blk a))\<lparr>creationType := Some ''factory''\<rparr>])"
  by (auto simp: factory_of_log_def split: list.splits option.splits)

lemma create2_of_log_cases:
  "create2_of_log d tx rc blk lg = [] \<or>
     (\<exists>a. log_address lg = Some a \<and> a \<noteq> [] \<and> Some a \<noteq> tx_to tx
        \<and> isContract (det_provider d) a
        \<and> extractContractData d tx rc blk a \<noteq> None
        \<and> create2_of_log d tx rc blk lg =
            [(the (extractContractData d tx rc blk a))\<lparr>creationType := Some ''create2''\<rparr>])"
  by (auto simp: create2_of_log_def truthy_def split: option.splits)

lemma in_factory_of_log:
  assumes "c \<in> set (factory_of_log d rc tx blk lg)"
  shows "\<exists>a c0. extractContractData d tx rc blk a = Some c0
           \<and> c = c0\<lparr>creationType := Some ''factory''\<rparr>"
  using factory_of_log_cases [of d rc tx blk lg] assms by auto blast

lemma in_create2_of_log:
  assumes "c \<in> set (create2_of_log d tx rc blk lg)"
  shows "\<exists>a c0. extractContractData d tx rc blk a = Some c0
           \<and> c = c0\<lparr>creationType := Some ''create2''\<rparr>"
  using create2_of_log_cases [of d tx rc blk lg] assms by auto blast

lemma in_detectCreate2Contracts:
  "c \<in> set (detectCreate2Contracts d tx rc blk) \<longleftrightarrow>
     (\<exists>data. tx_data tx = Some data \<and> str_includes data ''f5''
        \<and> (\<exists>lg\<in>set (rc_logs rc). c \<in> set (create2_of_log d tx rc blk lg)))"
proof (cases "tx_data tx")
  case None
  then show ?thesis by (simp add: detectCreate2Contracts_def)
next
  case (Some data)
  then show ?thesis
    by (cases "str_includes data ''f5''") (auto simp: detectCreate2Contracts_def)
qed

lemma in_detectFactoryContracts:
  "c \<in> set (detectFactoryContracts d rc tx blk) \<longleftrightarrow>
     (\<exists>lg\<in>set (rc_logs rc). c \<in> set (factory_of_log d rc tx blk lg))
     \<or> (truthy (tx_data tx) \<and> 10 < length (the (tx_data tx))
        \<and> c \<in> set (detectCreate2Contracts d tx rc blk))"
  by (cases "truthy (tx_data tx) \<and> 10 < length (the (tx_data tx))")
     (auto simp: detectFactoryContracts_def Let_def)

lemma detectFactoryContracts_from:
  assumes "c \<in> set (detectFactoryContracts d rc tx blk)"
  shows "\<exists>a c0 k. extractContractData d tx rc blk a = Some c0 \<and> c = c0\<lparr>creationType := Some k\<rparr>"
  using assms
  unfolding in_detectFactoryContracts in_detectCreate2Contracts
  by (blast dest: in_factory_of_log in_create2_of_log)

text \<open>The value returned by the body of \<open>processTransaction\<close> when a receipt is in hand.\<close>

lemma processTransaction_try_receipt:
  assumes "truthy (tx_hash tx)" and "tx_to tx = None"
    and "getTransactionReceipt (det_provider d) (tx_hash tx) = Inr (Some rc)"
  shows "processTransaction_try d (Some tx) blk =
           (if rc_status rc \<noteq> Some 1 then Inr None
            else Inr (Some ((if truthy (rc_contractAddress rc) then
                               (case extractContractData d tx rc blk (the (rc_contractAddress rc)) of
                                  Some contractData \<Rightarrow> [contractData]
                                | None \<Rightarrow> [])
                             else []) @ detectFactoryContracts d rc tx blk)))"
  using assms by (simp add: processTransaction_try_def isContractCreation_def Let_def)

lemma processTransaction_try_Some:
  assumes "processTransaction_try d t blk = Inr (Some cs)"
  shows "\<exists>tx rc. t = Some tx \<and> truthy (tx_hash tx) \<and> tx_to tx = None
           \<and> getTransactionReceipt (det_provider d) (tx_hash tx) = Inr (Some rc)
           \<and> rc_status rc = Some 1"
  using assms
  by (auto simp: processTransaction_try_def isContractCreation_def Let_def
           split: option.splits if_splits sum.splits)

lemma processTransaction_try_from:
  assumes "processTransaction_try d t blk = Inr (Some cs)" and "c \<in> set cs"
  shows "\<exists>tx rc a c0 k. extractContractData d tx rc blk a = Some c0 \<and> c = c0\<lparr>creationType := k\<rparr>"
proof -
  from processTransaction_try_Some [OF assms(1)] obtain tx rc where
    t: "t = Some tx" and h: "truthy (tx_hash tx)" "tx_to tx = None"
      "getTransactionReceipt (det_provider d) (tx_hash tx) = Inr (Some rc)"
    and ok: "rc_status rc = Some 1"
    by blast
  have cs: "cs = (if truthy (rc_contractAddress rc) then
                               (case extractContractData d tx rc blk (the (rc_contractAddress rc)) of
                                  Some contractData \<Rightarrow> [contractData]
                                | None \<Rightarrow> [])
                             else []) @ detectFactoryContracts d rc tx blk"
    using assms(1) ok unfolding t processTransaction_try_receipt [OF h] by simp
  show ?thesis
  proof (cases "c \<in> set (detectFactoryContracts d rc tx blk)")
    case True
    then show ?thesis by (blast dest: detectFactoryContracts_from)
  next
    case False
    have "extractContractData d tx rc blk (the (rc_contractAddress rc)) = Some c"
    proof (cases "truthy (rc_contractAddress rc)")
      case no: False
      with assms(2) cs False show ?thesis by simp
    next
      case yes: True
      with assms(2) cs False show ?thesis
        by (cases "extractContractData d tx rc blk (the (rc_contractAddress rc))") auto
    qed
    moreover have "c = c\<lparr>creationType := creationType c\<rparr>" by simp
    ultimately show ?thesis by blast
  qed
qed

lemma in_records_of:
  assumes "c \<in> set (records_of d blk t)"
  shows "\<exists>arr. processTransaction_try d t blk = Inr (Some arr) \<and> c \<in> set arr"
proof (cases "processTransaction_try d t blk")
  case (Inl e)
  with assms show ?thesis by (simp add: records_of_def)
next
  case (Inr r)
  with assms show ?thesis by (cases r) (auto simp: records_of_def)
qed

lemma push_results:
  "fold (\<lambda>result contracts. case result of None \<Rightarrow> contracts | Some arr \<Rightarrow> contracts @ arr)
        results acc
   = acc @ concat (map (\<lambda>r. case r of None \<Rightarrow> [] | Some arr \<Rightarrow> arr) results)"
  by (induction results arbitrary: acc) (auto split: option.splits)

lemma invalid_no_records: "\<not> validTransaction t \<Longrightarrow> records_of d blk t = []"
  by (cases t) (auto simp: validTransaction_def records_of_def processTransaction_try_def)

lemma valid_records:
  "concat (map (\<lambda>r. case r of None \<Rightarrow> [] | Some arr \<Rightarrow> arr)
     (map (\<lambda>tx. case processTransaction d tx blk of Inl e \<Rightarrow> None | Inr r \<Rightarrow> r)
        (filter validTransaction txs)))
   = concat (map (records_of d blk) txs)"
proof (induction txs)
  case Nil
  show ?case by simp
next
  case (Cons t txs)
  show ?case
  proof (cases "validTransaction t")
    case True
    have "(case (case processTransaction d t blk of Inl e \<Rightarrow> None | Inr r \<Rightarrow> r) of
             None \<Rightarrow> [] | Some arr \<Rightarrow> arr) = records_of d blk t"
      by (simp add: processTransaction_def records_of_def split: sum.splits option.splits)
    with True Cons show ?thesis by simp
  next
    case False
    with Cons show ?thesis by (simp add: invalid_no_records)
  qed
qed

lemma detector_processBlock_eq:
  "detector_processBlock d b =
     Inr (case b of
            None \<Rightarrow> []
          | Some blk \<Rightarrow>
              (case blk_transactions blk of
                 None \<Rightarrow> []
               | Some txs \<Rightarrow> concat (map (records_of d blk) txs)))"
  unfolding detector_processBlock_def detector_processBlock_try_def Let_def
    push_results valid_records
  by (simp split: option.splits)

lemma extract_transactions_irrelevant:
  "extractContractData d tx rc (blk\<lparr>blk_transactions := X\<rparr>) = extractContractData d tx rc blk"
  by (rule ext) (simp add: extractContractData_def Let_def
        cong: sum.case_cong option.case_cong if_cong)

lemma factory_of_log_irr:
  "factory_of_log d rc tx (blk\<lparr>blk_transactions := X\<rparr>) = factory_of_log d rc tx blk"
  by (rule ext) (simp add: factory_of_log_def extract_transactions_irrelevant
        cong: list.case_cong option.case_cong if_cong)

lemma create2_of_log_irr:
  "create2_of_log d tx rc (blk\<lparr>blk_transactions := X\<rparr>) = create2_of_log d tx rc blk"
  by (rule ext) (simp add: create2_of_log_def extract_transactions_irrelevant cong: if_cong)

lemma detectFactoryContracts_irr:
  "detectFactoryContracts d rc tx (blk\<lparr>blk_transactions := X\<rparr>) = detectFactoryContracts d rc tx blk"
  by (simp add: detectFactoryContracts_def detectCreate2Contracts_def Let_def
        factory_of_log_irr create2_of_log_irr cong: option.case_cong if_cong)

lemma processTransaction_try_irr:
  "processTransaction_try d t (blk\<lparr>blk_transactions := X\<rparr>) = processTransaction_try d t blk"
  by (simp add: processTransaction_try_def Let_def detectFactoryContracts_irr
        extract_transactions_irrelevant cong: option.case_cong sum.case_cong if_cong)

lemma records_of_irr:
  "records_of d (blk\<lparr>blk_transactions := X\<rparr>) = records_of d blk"
  by (rule ext) (simp add: records_of_def processTransaction_try_irr)

text \<open>
  Claim C4. Every record that the detector's \<open>processBlock\<close> returns, on whichever path
  it was produced, is the record of an address for which \<open>getCode\<close> returned a bytecode
  that is neither empty nor \<open>0x\<close>: the record's address is that address in lower case,
  and its hash and size are those of that bytecode. An address for which \<open>getCode\<close>
  returns nothing or \<open>0x\<close> gives no record.
\<close>

theorem detector_records_have_bytecode:
  assumes "detector_processBlock d b = Inr cs" and "c \<in> set cs"
  shows "(\<exists>a code. getCode (det_provider d) a = Inr (Some code) \<and> code \<noteq> [] \<and> code \<noteq> ''0x''
            \<and> address c = toLowerCase a \<and> bytecodeHash c = sha256_hex d code
            \<and> contractSize c = (int (length code) - 2) div 2)
       \<and> (\<forall>tx rc blk a.
             getCode (det_provider d) a = Inr None \<or> getCode (det_provider d) a = Inr (Some ''0x'')
             \<longrightarrow> extractContractData d tx rc blk a = None)"
proof
  from assms obtain blk txs t where "b = Some blk" "blk_transactions blk = Some txs"
    "t \<in> set txs" "c \<in> set (records_of d blk t)"
    by (auto simp: detector_processBlock_eq split: option.splits)
  then obtain arr where "processTransaction_try d t blk = Inr (Some arr)" "c \<in> set arr"
    by (blast dest: in_records_of)
  then obtain tx rc a c0 k where
    "extractContractData d tx rc blk a = Some c0" "c = c0\<lparr>creationType := k\<rparr>"
    by (blast dest: processTransaction_try_from)
  then show "\<exists>a code. getCode (det_provider d) a = Inr (Some code) \<and> code \<noteq> [] \<and> code \<noteq> ''0x''
            \<and> address c = toLowerCase a \<and> bytecodeHash c = sha256_hex d code
            \<and> contractSize c = (int (length code) - 2) div 2"
    by (auto dest!: extract_Some)
next
  show "\<forall>tx rc blk a.
             getCode (det_provider d) a = Inr None \<or> getCode (det_provider d) a = Inr (Some ''0x'')
             \<longrightarrow> extractContractData d tx rc blk a = None"
    by (auto intro: extract_None)
qed

lemma example_run:
  "detector_processBlock example_detector (Some example_block) =
     Inr [deploy_record, deploy_record\<lparr>creationType := Some ''create2''\<rparr>,
          deploy_record\<lparr>address := child_address, transactionHash := Some ''0xeee'',
                        gasUsed := Some 50000, creationType := Some ''factory''\<rparr>]"
  by code_simp

theorem detector_records_have_bytecode_witness:
  "detector_processBlock example_detector (Some example_block) =
     Inr [deploy_record, deploy_record\<lparr>creationType := Some ''create2''\<rparr>,
          deploy_record\<lparr>address := child_address, transactionHash := Some ''0xeee'',
                        gasUsed := Some 50000, creationType := Some ''factory''\<rparr>]
   \<and> (\<exists>a code. getCode (det_provider example_detector) a = Inr (Some code)
          \<and> code \<noteq> [] \<and> code \<noteq> ''0x''
          \<and> address deploy_record = toLowerCase a
          \<and> bytecodeHash deploy_record = sha256_hex example_detector code
          \<and> contractSize deploy_record = (int (length code) - 2) div 2)"
proof -
  note run = example_run
  have mem: "deploy_record \<in> set [deploy_record, deploy_record\<lparr>creationType := Some ''create2''\<rparr>,
          deploy_record\<lparr>address := child_address, transactionHash := Some ''0xeee'',
                        gasUsed := Some 50000, creationType := Some ''factory''\<rparr>]"
    by simp
  from detector_records_have_bytecode [OF run mem] run show ?thesis by blast
qed

lemma match_address_nonempty: "match_address s = Some a \<Longrightarrow> a \<noteq> []"
  by (induction s) (auto split: if_splits)

lemma extractAddressFromLog_nonempty: "extractAddressFromLog lg = Some a \<Longrightarrow> a \<noteq> []"
  by (auto simp: extractAddressFromLog_def Let_def
           split: list.splits option.splits if_splits dest: match_address_nonempty)

lemma extract_ok:
  assumes "getCode (det_provider d) a = Inr (Some code)" "code \<noteq> []" "code \<noteq> ''0x''"
    and "tx_from tx = Some sender" "\<not> analyzeBytecode d"
  shows "extractContractData d tx rc blk a =
           Some \<lparr>address = toLowerCase a,
                 creatorAddress = toLowerCase sender,
                 transactionHash = tx_hash tx,
                 blockNumber = blk_number blk,
                 blockHash = blk_hash blk,
                 blockTimestamp = blk_timestamp blk,
                 gasUsed = nonzero (rc_gasUsed rc),
                 gasPrice = nonzero (tx_gasPrice tx),
                 contractSize = (int (length code) - 2) div 2,
                 bytecodeHash = sha256_hex d code,
                 network = nc_name (det_networkConfig d),
                 chainId = nc_chainId (det_networkConfig d),
                 creationType = None\<rparr>"
  using assms by (simp add: extractContractData_def truthy_def)

lemma analysing_extract_nothing:
  "analyzeBytecode d \<Longrightarrow> extractContractData d tx rc blk a = None"
  by (auto simp: extractContractData_def Let_def split: sum.splits option.splits)

lemma analysing_detector_finds_nothing:
  assumes "analyzeBytecode d"
  shows "detector_processBlock d b = Inr []"
proof -
  have "cs = []" if "detector_processBlock d b = Inr cs" for cs
  proof (cases cs)
    case Nil
    then show ?thesis .
  next
    case (Cons c cs')
    then have "c \<in> set cs" by simp
    with that obtain blk txs t where "b = Some blk" "blk_transactions blk = Some txs"
      "t \<in> set txs" "c \<in> set (records_of d blk t)"
      by (auto simp: detector_processBlock_eq split: option.splits)
    then obtain arr where "processTransaction_try d t blk = Inr (Some arr)" "c \<in> set arr"
      by (blast dest: in_records_of)
    then obtain tx rc a c0 k where "extractContractData d tx rc blk a = Some c0"
      by (blast dest: processTransaction_try_from)
    with assms show ?thesis by (simp add: analysing_extract_nothing)
  qed
  then show ?thesis by (simp add: detector_processBlock_eq)
qed

text \<open>
  Claim C10. The detector's \<open>processBlock\<close> never throws: it returns an array for every
  input, the empty one for a null block and for a block without a transactions field.
  A transaction whose processing raises an exception gives null, and the block's result
  is the same as without that transaction; the result for a list of transactions is the
  concatenation of the results for its parts.
\<close>

theorem detector_processBlock_total:
  "detector_processBlock d None = Inr []
   \<and> detector_processBlock d (Some (blk\<lparr>blk_transactions := None\<rparr>)) = Inr []
   \<and> (\<exists>cs. detector_processBlock d b = Inr cs)
   \<and> (processTransaction_try d t blk = Inl e \<longrightarrow>
        processTransaction d t blk = Inr None
        \<and> detector_processBlock d (Some (blk\<lparr>blk_transactions := Some (xs @ t # ys)\<rparr>))
          = detector_processBlock d (Some (blk\<lparr>blk_transactions := Some (xs @ ys)\<rparr>)))
   \<and> (\<exists>as bs. detector_processBlock d (Some (blk\<lparr>blk_transactions := Some xs\<rparr>)) = Inr as
          \<and> detector_processBlock d (Some (blk\<lparr>blk_transactions := Some ys\<rparr>)) = Inr bs
          \<and> detector_processBlock d (Some (blk\<lparr>blk_transactions := Some (xs @ ys)\<rparr>))
              = Inr (as @ bs))"
proof -
  have "records_of d blk t = []" if "processTransaction_try d t blk = Inl e"
    using that by (simp add: records_of_def)
  then show ?thesis
    by (simp add: detector_processBlock_eq records_of_irr processTransaction_def)
qed

lemma unlucky_fails:
  "processTransaction_try example_detector (Some unlucky_tx) example_block = Inl (Error ''timeout'')"
  by code_simp

theorem detector_processBlock_total_witness:
  "processTransaction_try example_detector (Some unlucky_tx) example_block = Inl (Error ''timeout'')
   \<and> processTransaction example_detector (Some unlucky_tx) example_block = Inr None
   \<and> detector_processBlock example_detector
        (Some (example_block\<lparr>blk_transactions :=
                 Some ([Some deploy_tx] @ Some unlucky_tx # [Some deploy_with_event_tx])\<rparr>))
     = detector_processBlock example_detector
        (Some (example_block\<lparr>blk_transactions :=
                 Some ([Some deploy_tx] @ [Some deploy_with_event_tx])\<rparr>))"
  using detector_processBlock_total
          [of example_detector example_block "Some example_block" "Some unlucky_tx"
              "Error ''timeout''" "[Some deploy_tx]" "[Some deploy_with_event_tx]"]
        unlucky_fails
  by simp

text \<open>
  Claim C5, as the code has it. For a transaction with a hash, no destination and a
  receipt: if the receipt has status 1 and a contract address whose bytecode is neither
  empty nor \<open>0x\<close>, the sender is present and bytecode analysis is disabled, the records
  of the transaction are one record of the direct path (no \<open>creationType\<close>) for that
  address, followed by the records of the factory and CREATE2 heuristics, each of which
  carries a \<open>creationType\<close>; there are none when the receipt has no logs. If the status is
  not 1, the transaction gives null and the block no record.
\<close>

theorem direct_creation_records:
  assumes "truthy (tx_hash tx)" and "tx_to tx = None"
    and "getTransactionReceipt (det_provider d) (tx_hash tx) = Inr (Some rc)"
  shows "(rc_status rc = Some 1 \<and> rc_contractAddress rc = Some ca \<and> ca \<noteq> []
            \<and> getCode (det_provider d) ca = Inr (Some code) \<and> code \<noteq> [] \<and> code \<noteq> ''0x''
            \<and> tx_from tx = Some sender \<and> \<not> analyzeBytecode d
          \<longrightarrow> (\<exists>c. processTransaction d (Some tx) blk
                       = Inr (Some (c # detectFactoryContracts d rc tx blk))
                  \<and> creationType c = None \<and> address c = toLowerCase ca
                  \<and> creatorAddress c = toLowerCase sender \<and> transactionHash c = tx_hash tx
                  \<and> bytecodeHash c = sha256_hex d code
                  \<and> (\<forall>c' \<in> set (detectFactoryContracts d rc tx blk). creationType c' \<noteq> None)
                  \<and> (rc_logs rc = [] \<longrightarrow> detectFactoryContracts d rc tx blk = [])))
       \<and> (rc_status rc \<noteq> Some 1
          \<longrightarrow> processTransaction d (Some tx) blk = Inr None
              \<and> detector_processBlock d (Some (blk\<lparr>blk_transactions := Some [Some tx]\<rparr>)) = Inr [])"
proof (intro conjI impI)
  assume h: "rc_status rc = Some 1 \<and> rc_contractAddress rc = Some ca \<and> ca \<noteq> []
            \<and> getCode (det_provider d) ca = Inr (Some code) \<and> code \<noteq> [] \<and> code \<noteq> ''0x''
            \<and> tx_from tx = Some sender \<and> \<not> analyzeBytecode d"
  let ?c = "\<lparr>address = toLowerCase ca,
                 creatorAddress = toLowerCase sender,
                 transactionHash = tx_hash tx,
                 blockNumber = blk_number blk,
                 blockHash = blk_hash blk,
                 blockTimestamp = blk_timestamp blk,
                 gasUsed = nonzero (rc_gasUsed rc),
                 gasPrice = nonzero (tx_gasPrice tx),
                 contractSize = (int (length code) - 2) div 2,
                 bytecodeHash = sha256_hex d code,
                 network = nc_name (det_networkConfig d),
                 chainId = nc_chainId (det_networkConfig d),
                 creationType = None\<rparr>"
  have ex: "extractContractData d tx rc blk ca = Some ?c"
    using h by (intro extract_ok) simp_all
  have run: "processTransaction d (Some tx) blk = Inr (Some (?c # detectFactoryContracts d rc tx blk))"
    using h ex by (simp add: processTransaction_def processTransaction_try_receipt [OF assms] truthy_def)
  have kinds: "\<forall>c' \<in> set (detectFactoryContracts d rc tx blk). creationType c' \<noteq> None"
    by (auto dest!: detectFactoryContracts_from)
  have nologs: "rc_logs rc = [] \<longrightarrow> detectFactoryContracts d rc tx blk = []"
    by (simp add: detectFactoryContracts_def detectCreate2Contracts_def Let_def split: option.splits)
  show "\<exists>c. processTransaction d (Some tx) blk
                       = Inr (Some (c # detectFactoryContracts d rc tx blk))
                  \<and> creationType c = None \<and> address c = toLowerCase ca
                  \<and> creatorAddress c = toLowerCase sender \<and> transactionHash c = tx_hash tx
                  \<and> bytecodeHash c = sha256_hex d code
                  \<and> (\<forall>c' \<in> set (detectFactoryContracts d rc tx blk). creationType c' \<noteq> None)
                  \<and> (rc_logs rc = [] \<longrightarrow> detectFactoryContracts d rc tx blk = [])"
    using run kinds nologs by (intro exI[where x="?c"]) simp
next
  assume "rc_status rc \<noteq> Some 1"
  then show "processTransaction d (Some tx) blk = Inr None"
    by (simp add: processTransaction_def processTransaction_try_receipt [OF assms])
next
  assume "rc_status rc \<noteq> Some 1"
  then have "records_of d blk (Some tx) = []"
    by (simp add: records_of_def processTransaction_try_receipt [OF assms])
  then show "detector_processBlock d (Some (blk\<lparr>blk_transactions := Some [Some tx]\<rparr>)) = Inr []"
    by (simp add: detector_processBlock_eq records_of_irr)
qed


lemma deploy_receipt_fetched:
  "getTransactionReceipt (det_provider example_detector) (tx_hash deploy_tx) = Inr (Some deploy_receipt)"
  by code_simp

lemma reverted_receipt_fetched:
  "getTransactionReceipt (det_provider example_detector) (tx_hash reverted_tx) = Inr (Some reverted_receipt)"
  by code_simp

lemma deploy_code_fetched:
  "getCode (det_provider example_detector) ''0xC0DE'' = Inr (Some ''0x6001'')"
  by code_simp

theorem direct_creation_records_witness:
  "truthy (tx_hash deploy_tx) \<and> tx_to deploy_tx = None
   \<and> getTransactionReceipt (det_provider example_detector) (tx_hash deploy_tx)
       = Inr (Some deploy_receipt)
   \<and> rc_status deploy_receipt = Some 1
   \<and> getCode (det_provider example_detector) ''0xC0DE'' = Inr (Some ''0x6001'')
   \<and> (\<exists>c. processTransaction example_detector (Some deploy_tx) example_block
            = Inr (Some (c # detectFactoryContracts example_detector deploy_receipt deploy_tx
                               example_block))
          \<and> creationType c = None \<and> address c = toLowerCase ''0xC0DE'')
   \<and> truthy (tx_hash reverted_tx) \<and> tx_to reverted_tx = None
   \<and> getTransactionReceipt (det_provider example_detector) (tx_hash reverted_tx)
       = Inr (Some reverted_receipt)
   \<and> rc_status reverted_receipt = Some 0
   \<and> processTransaction example_detector (Some reverted_tx) example_block = Inr None
   \<and> detector_processBlock example_detector
        (Some (example_block\<lparr>blk_transactions := Some [Some reverted_tx]\<rparr>)) = Inr []"
proof -
  have a1: "truthy (tx_hash deploy_tx)" and a2: "tx_to deploy_tx = None"
    by (simp_all add: deploy_tx_def truthy_def)
  have b1: "truthy (tx_hash reverted_tx)" and b2: "tx_to reverted_tx = None"
    by (simp_all add: reverted_tx_def truthy_def)
  have ok: "rc_status deploy_receipt = Some 1 \<and> rc_contractAddress deploy_receipt = Some ''0xC0DE''
            \<and> ''0xC0DE'' \<noteq> []
            \<and> getCode (det_provider example_detector) ''0xC0DE'' = Inr (Some ''0x6001'')
            \<and> ''0x6001'' \<noteq> [] \<and> ''0x6001'' \<noteq> ''0x''
            \<and> tx_from deploy_tx = Some ''0xDeployer'' \<and> \<not> analyzeBytecode example_detector"
    using deploy_code_fetched
    by (simp add: deploy_receipt_def deploy_tx_def example_detector_def)
  have bad: "rc_status reverted_receipt \<noteq> Some 1" "rc_status reverted_receipt = Some 0"
    by (simp_all add: reverted_receipt_def)
  show ?thesis
    using direct_creation_records [OF a1 a2 deploy_receipt_fetched,
            of "''0xC0DE''" "''0x6001''" "''0xDeployer''" example_block]
          direct_creation_records [OF b1 b2 reverted_receipt_fetched,
            of "''0xC0DE''" "''0x6001''" "''0xDeployer''" example_block]
          a1 a2 b1 b2 ok bad deploy_receipt_fetched reverted_receipt_fetched
    by blast
qed

text \<open>
  Claim C5 as stated (exactly one record) fails. With analysis disabled, a successful
  deployment whose input data contains \<open>f5\<close> and whose receipt has a log emitted by the
  new contract gives two records for the same address, the second from the CREATE2
  heuristic. With analysis enabled the same deployment gives no record.
\<close>

theorem direct_creation_two_records_counterexample:
  "truthy (tx_hash deploy_tx) \<and> tx_to deploy_tx = None
   \<and> getTransactionReceipt (det_provider example_detector) (tx_hash deploy_tx)
       = Inr (Some deploy_receipt)
   \<and> rc_status deploy_receipt = Some 1
   \<and> rc_contractAddress deploy_receipt = Some ''0xC0DE''
   \<and> getCode (det_provider example_detector) ''0xC0DE'' = Inr (Some ''0x6001'')
   \<and> detector_processBlock example_detector
        (Some (example_block\<lparr>blk_transactions := Some [Some deploy_tx]\<rparr>))
       = Inr [deploy_record, deploy_record\<lparr>creationType := Some ''create2''\<rparr>]
   \<and> detector_processBlock analysing_detector
        (Some (example_block\<lparr>blk_transactions := Some [Some deploy_tx]\<rparr>))
       = Inr []"
  by code_simp

text \<open>
  Claim C6, as the code has it. Factory detection runs only inside the direct-creation
  path: for a transaction with a hash, no destination and a receipt of status 1 (sender
  present, analysis disabled), every log whose first topic is one of the three known
  signatures and whose extracted address has a bytecode that is neither empty nor \<open>0x\<close>
  gives a record with \<open>creationType = factory\<close> for that address. A transaction with a
  destination gives null, whatever its logs.
\<close>

theorem factory_detection_gated:
  assumes "truthy (tx_hash tx)" and "tx_to tx = None"
    and "getTransactionReceipt (det_provider d) (tx_hash tx) = Inr (Some rc)"
    and "rc_status rc = Some 1" and "tx_from tx = Some sender" and "\<not> analyzeBytecode d"
    and "lg \<in> set (rc_logs rc)" and "log_topics lg = t0 # rest"
    and "t0 \<in> set contractCreationTopics" and "extractAddressFromLog lg = Some a"
    and "getCode (det_provider d) a = Inr (Some code)" and "code \<noteq> []" and "code \<noteq> ''0x''"
  shows "(\<exists>cs c. processTransaction d (Some tx) blk = Inr (Some cs) \<and> c \<in> set cs
            \<and> address c = toLowerCase a \<and> creationType c = Some ''factory''
            \<and> transactionHash c = tx_hash tx \<and> bytecodeHash c = sha256_hex d code)
       \<and> (\<forall>tx'. tx_to tx' \<noteq> None \<longrightarrow> processTransaction d (Some tx') blk = Inr None)"
proof
  let ?c = "\<lparr>address = toLowerCase a,
                 creatorAddress = toLowerCase sender,
                 transactionHash = tx_hash tx,
                 blockNumber = blk_number blk,
                 blockHash = blk_hash blk,
                 blockTimestamp = blk_timestamp blk,
                 gasUsed = nonzero (rc_gasUsed rc),
                 gasPrice = nonzero (tx_gasPrice tx),
                 contractSize = (int (length code) - 2) div 2,
                 bytecodeHash = sha256_hex d code,
                 network = nc_name (det_networkConfig d),
                 chainId = nc_chainId (det_networkConfig d),
                 creationType = None\<rparr>"
  have ex: "extractContractData d tx rc blk a = Some ?c"
    using assms by (intro extract_ok) simp_all
  have isC: "isContract (det_provider d) a"
    using assms by (simp add: isContract_def)
  have ne: "a \<noteq> []" using assms(10) by (rule extractAddressFromLog_nonempty)
  have one: "factory_of_log d rc tx blk lg = [?c\<lparr>creationType := Some ''factory''\<rparr>]"
    using assms ex isC ne by (simp add: factory_of_log_def)
  then have mem: "?c\<lparr>creationType := Some ''factory''\<rparr> \<in> set (detectFactoryContracts d rc tx blk)"
    using assms(7) unfolding in_detectFactoryContracts by (intro disjI1 bexI[where x=lg]) simp_all
  have "processTransaction d (Some tx) blk =
      Inr (Some ((if truthy (rc_contractAddress rc) then
                               (case extractContractData d tx rc blk (the (rc_contractAddress rc)) of
                                  Some contractData \<Rightarrow> [contractData]
                                | None \<Rightarrow> [])
                             else []) @ detectFactoryContracts d rc tx blk))"
    using assms(4) by (simp add: processTransaction_def processTransaction_try_receipt [OF assms(1-3)])
  then obtain primary where
    run: "processTransaction d (Some tx) blk = Inr (Some (primary @ detectFactoryContracts d rc tx blk))"
    by blast
  have "?c\<lparr>creationType := Some ''factory''\<rparr> \<in> set (primary @ detectFactoryContracts d rc tx blk)"
    using mem by simp
  with run show "\<exists>cs c. processTransaction d (Some tx) blk = Inr (Some cs) \<and> c \<in> set cs
            \<and> address c = toLowerCase a \<and> creationType c = Some ''factory''
            \<and> transactionHash c = tx_hash tx \<and> bytecodeHash c = sha256_hex d code"
    by (intro exI[where x="primary @ detectFactoryContracts d rc tx blk"]
              exI[where x="?c\<lparr>creationType := Some ''factory''\<rparr>"]) simp
next
  show "\<forall>tx'. tx_to tx' \<noteq> None \<longrightarrow> processTransaction d (Some tx') blk = Inr None"
    by (simp add: processTransaction_def processTransaction_try_def isContractCreation_def)
qed


lemma event_receipt_fetched:
  "getTransactionReceipt (det_provider example_detector) (tx_hash deploy_with_event_tx)
     = Inr (Some deploy_with_event_receipt)"
  by code_simp

lemma child_code_fetched:
  "getCode (det_provider example_detector) child_address = Inr (Some ''0x6001'')"
  by code_simp

lemma created_log_address: "extractAddressFromLog created_log = Some child_address"
  by code_simp

theorem factory_detection_gated_witness:
  "truthy (tx_hash deploy_with_event_tx) \<and> tx_to deploy_with_event_tx = None
   \<and> getTransactionReceipt (det_provider example_detector) (tx_hash deploy_with_event_tx)
       = Inr (Some deploy_with_event_receipt)
   \<and> rc_status deploy_with_event_receipt = Some 1
   \<and> created_log \<in> set (rc_logs deploy_with_event_receipt)
   \<and> extractAddressFromLog created_log = Some child_address
   \<and> getCode (det_provider example_detector) child_address = Inr (Some ''0x6001'')
   \<and> (\<exists>cs c. processTransaction example_detector (Some deploy_with_event_tx) example_block
                 = Inr (Some cs) \<and> c \<in> set cs
            \<and> address c = toLowerCase child_address \<and> creationType c = Some ''factory'')
   \<and> tx_to factory_call_tx = Some ''0xFAC''
   \<and> processTransaction example_detector (Some factory_call_tx) example_block = Inr None"
proof -
  have h1: "truthy (tx_hash deploy_with_event_tx)" and h2: "tx_to deploy_with_event_tx = None"
    and h5: "tx_from deploy_with_event_tx = Some ''0xDeployer''"
    by (simp_all add: deploy_with_event_tx_def truthy_def)
  have h4: "rc_status deploy_with_event_receipt = Some 1"
    and h7: "created_log \<in> set (rc_logs deploy_with_event_receipt)"
    by (simp_all add: deploy_with_event_receipt_def)
  have h6: "\<not> analyzeBytecode example_detector" by (simp add: example_detector_def)
  have h8: "log_topics created_log =
              ''0x4db17dd5e4732fb6da34a148104a592783ca119a1e7bb8829eba6cbadef0b511''
              # [''0x000000000000000000000000c0ffee0000000000000000000000000000000000'']"
    by (simp add: created_log_def)
  have h9: "''0x4db17dd5e4732fb6da34a148104a592783ca119a1e7bb8829eba6cbadef0b511''
              \<in> set contractCreationTopics"
    by (simp add: contractCreationTopics_def)
  have h12: "''0x6001'' \<noteq> []" and h13: "''0x6001'' \<noteq> ''0x''" by simp_all
  have g: "tx_to factory_call_tx = Some ''0xFAC''" "tx_to factory_call_tx \<noteq> None"
    by (simp_all add: factory_call_tx_def)
  show ?thesis
    using factory_detection_gated [OF h1 h2 event_receipt_fetched h4 h5 h6 h7 h8 h9
            created_log_address child_code_fetched h12 h13, of example_block]
          h1 h2 event_receipt_fetched h4 h7 created_log_address child_code_fetched g
    by blast
qed

text \<open>The heuristic itself matches the log of the factory call.\<close>

lemma factory_call_log_matches:
  "detectFactoryContracts example_detector factory_call_receipt factory_call_tx example_block
     = [deploy_record\<lparr>address := child_address, transactionHash := Some ''0xddd'',
                      gasUsed := Some 50000, creationType := Some ''factory''\<rparr>]"
  by code_simp

text \<open>
  Claim C6 as stated (independent of the direct-creation classification) fails: a call
  of a factory whose receipt has a ContractCreated log for a child with bytecode gives
  no record.
\<close>

theorem factory_call_ignored_counterexample:
  "validTransaction (Some factory_call_tx)
   \<and> getTransactionReceipt (det_provider example_detector) (tx_hash factory_call_tx)
       = Inr (Some factory_call_receipt)
   \<and> created_log \<in> set (rc_logs factory_call_receipt)
   \<and> hd (log_topics created_log) \<in> set contractCreationTopics
   \<and> extractAddressFromLog created_log = Some child_address
   \<and> getCode (det_provider example_detector) child_address = Inr (Some ''0x6001'')
   \<and> detector_processBlock example_detector
        (Some (example_block\<lparr>blk_transactions := Some [Some factory_call_tx]\<rparr>)) = Inr []"
  by code_simp



section \<open>The database\<close>

lemma saveContract_Inr:
  assumes "saveContract db c = Inr db'"
  shows "contracts db' = filter (\<lambda>r. col_address r \<noteq> address c) (contracts db)
                          @ [row_of (next_id db) c]"
    and "isInitialized db' = isInitialized db" and "db_open db' = db_open db"
    and "sqlite_err db' = sqlite_err db" and "scanning_progress db' = scanning_progress db"
    and "\<not> save_rejected db c"
  using assms by (auto simp: saveContract_def save_rejected_def split: if_splits)

lemma saveContract_Inl:
  "saveContract db c = Inl e \<Longrightarrow> save_rejected db c"
  by (auto simp: saveContract_def save_rejected_def split: if_splits)

text \<open>
  Claim C3, as the code has it. The key of \<open>contracts\<close> is the address alone. When a
  second record with the same address is saved after a first one, whatever their
  networks, exactly one row with that address remains; it carries the columns of the
  second record (its network and transaction hash among them), and the rows of other
  addresses are untouched.
\<close>

theorem saveContract_last_write_wins_by_address:
  assumes "saveContract db r1 = Inr db1" and "saveContract db1 r2 = Inr db2"
    and "address r2 = address r1"
  shows "filter (\<lambda>r. col_address r = address r1) (contracts db2) = [row_of (next_id db1) r2]
       \<and> col_network (row_of (next_id db1) r2) = network r2
       \<and> col_transaction_hash (row_of (next_id db1) r2) = transactionHash r2
       \<and> filter (\<lambda>r. col_address r \<noteq> address r1) (contracts db2)
           = filter (\<lambda>r. col_address r \<noteq> address r1) (contracts db)"
proof -
  have c1: "contracts db1 = filter (\<lambda>r. col_address r \<noteq> address r1) (contracts db)
                              @ [row_of (next_id db) r1]"
    using assms(1) by (rule saveContract_Inr)
  have c2: "contracts db2 = filter (\<lambda>r. col_address r \<noteq> address r1) (contracts db1)
                              @ [row_of (next_id db1) r2]"
    using saveContract_Inr(1) [OF assms(2)] assms(3) by simp
  have a1: "col_address (row_of (next_id db) r1) = address r1"
    and a2: "col_address (row_of (next_id db1) r2) = address r1"
    using assms(3) by (simp_all add: row_of_def)
  show ?thesis
    unfolding c2 c1 using a1 a2 by (simp add: row_of_def)
qed

text \<open>
  Claim C3 as stated (the same address on different networks is stored separately)
  fails: after saving an Ethereum record and then a Polygon record of the same address,
  the table holds the Polygon row only.
\<close>

theorem saveContract_other_network_overwrites_counterexample:
  "address polygon_record = address deploy_record
   \<and> network deploy_record = ''Ethereum Mainnet''
   \<and> network polygon_record = ''Polygon Mainnet''
   \<and> save_twice empty_db deploy_record polygon_record =
       Inr (empty_db\<lparr>contracts := [row_of 2 polygon_record], next_id := 3\<rparr>)
   \<and> map col_network [row_of 2 polygon_record] = [''Polygon Mainnet'']"
  by (simp add: save_twice_def saveContract_def empty_db_def deploy_record_def
        polygon_record_def accepts_all_def row_of_def)

lemma first_save: "saveContract empty_db deploy_record
   = Inr (empty_db\<lparr>contracts := [row_of 1 deploy_record], next_id := 2\<rparr>)"
  by (simp add: saveContract_def empty_db_def deploy_record_def accepts_all_def)

lemma second_save: "saveContract (empty_db\<lparr>contracts := [row_of 1 deploy_record], next_id := 2\<rparr>) polygon_record
   = Inr (empty_db\<lparr>contracts := [row_of 2 polygon_record], next_id := 3\<rparr>)"
  by (simp add: saveContract_def empty_db_def deploy_record_def polygon_record_def
        accepts_all_def row_of_def)

theorem saveContract_last_write_wins_by_address_witness:
  "saveContract empty_db deploy_record
     = Inr (empty_db\<lparr>contracts := [row_of 1 deploy_record], next_id := 2\<rparr>)
   \<and> saveContract (empty_db\<lparr>contracts := [row_of 1 deploy_record], next_id := 2\<rparr>) polygon_record
     = Inr (empty_db\<lparr>contracts := [row_of 2 polygon_record], next_id := 3\<rparr>)
   \<and> address polygon_record = address deploy_record
   \<and> filter (\<lambda>r. col_address r = address deploy_record)
        (contracts (empty_db\<lparr>contracts := [row_of 2 polygon_record], next_id := 3\<rparr>))
      = [row_of 2 polygon_record]
   \<and> col_network (row_of 2 polygon_record) = network polygon_record"
proof -
  have same: "address polygon_record = address deploy_record"
    by (simp add: polygon_record_def)
  show ?thesis
    using saveContract_last_write_wins_by_address [OF first_save second_save same]
          first_save second_save same
    by simp
qed



section \<open>The scanner\<close>

lemma same_engine_refl: "same_engine db db"
  by (simp add: same_engine_def)

lemma same_engine_trans: "same_engine a b \<Longrightarrow> same_engine b c \<Longrightarrow> same_engine a c"
  by (simp add: same_engine_def)

lemma same_engine_rejected: "same_engine db db' \<Longrightarrow> save_rejected db' c = save_rejected db c"
  by (simp add: same_engine_def save_rejected_def)

lemma same_setup_refl: "same_setup sc sc"
  by (simp add: same_setup_def)

lemma same_setup_trans: "same_setup a b \<Longrightarrow> same_setup b c \<Longrightarrow> same_setup a c"
  by (simp add: same_setup_def)

text \<open>A save is rejected exactly when \<open>saveContract\<close> throws; an accepted one inserts the row.\<close>

lemma saveContract_rejected:
  "save_rejected db c \<Longrightarrow> \<exists>err. saveContract db c = Inl err"
  by (auto simp: saveContract_def save_rejected_def)

lemma saveContract_accepted:
  "\<not> save_rejected db c \<Longrightarrow>
   saveContract db c =
     Inr (db\<lparr>contracts := filter (\<lambda>r. col_address r \<noteq> address c) (contracts db)
                            @ [row_of (next_id db) c],
            next_id := Suc (next_id db)\<rparr>)"
  by (auto simp: saveContract_def save_rejected_def)

lemma saved_all_Nil: "saved_all db [] = db"
  by (simp add: saved_all_def)

lemma saved_all_Cons:
  "saved_all db (c # cs) =
     saved_all (case saveContract db c of Inr saved \<Rightarrow> saved | Inl e \<Rightarrow> db) cs"
  by (simp add: saved_all_def)

lemma saved_all_append: "saved_all db (xs @ ys) = saved_all (saved_all db xs) ys"
  by (simp add: saved_all_def)

lemma save_step_engine:
  "same_engine db (case saveContract db c of Inr saved \<Rightarrow> saved | Inl e \<Rightarrow> db)"
proof (cases "save_rejected db c")
  case True
  then show ?thesis using saveContract_rejected [of db c] by (auto simp: same_engine_refl)
next
  case False
  then show ?thesis by (simp add: saveContract_accepted same_engine_def)
qed

lemma saved_all_engine: "same_engine db (saved_all db cs)"
proof (induction cs arbitrary: db)
  case Nil
  show ?case by (simp add: saved_all_Nil same_engine_refl)
next
  case (Cons c cs)
  show ?case
    unfolding saved_all_Cons
    using save_step_engine [of db c] Cons.IH by (blast intro: same_engine_trans)
qed

lemma find_snoc:
  "find P (xs @ [y]) =
     (case find P xs of Some x \<Rightarrow> Some x | None \<Rightarrow> if P y then Some y else None)"
  by (induction xs) auto

lemma find_SomeD: "find P xs = Some x \<Longrightarrow> x \<in> set xs \<and> P x"
  by (induction xs) (auto split: if_splits)

lemma filter_other_address:
  "a \<noteq> b \<Longrightarrow>
   filter (\<lambda>r. col_address r = a) (filter (\<lambda>r. col_address r \<noteq> b) xs)
     = filter (\<lambda>r. col_address r = a) xs"
  by (induction xs) auto

lemma filter_same_address:
  "filter (\<lambda>r. col_address r = a) (filter (\<lambda>r. col_address r \<noteq> a) xs) = []"
  by (induction xs) auto

text \<open>
  After a run of saves, the rows of an address are the single row of the last accepted
  record with that address, or those from before the run when there is none.
\<close>

lemma saved_all_rows:
  "case find (\<lambda>c. address c = a \<and> \<not> save_rejected db c) (rev cs) of
     Some c \<Rightarrow> \<exists>n. filter (\<lambda>r. col_address r = a) (contracts (saved_all db cs)) = [row_of n c]
   | None \<Rightarrow> filter (\<lambda>r. col_address r = a) (contracts (saved_all db cs))
              = filter (\<lambda>r. col_address r = a) (contracts db)"
proof (induction cs arbitrary: db)
  case Nil
  show ?case by (simp add: saved_all_Nil)
next
  case (Cons c cs)
  let ?db1 = "case saveContract db c of Inr saved \<Rightarrow> saved | Inl e \<Rightarrow> db"
  have rej: "save_rejected ?db1 c' = save_rejected db c'" for c'
    using save_step_engine [of db c] by (rule same_engine_rejected)
  note IH = Cons.IH [of ?db1, unfolded rej]
  have split: "find (\<lambda>c. address c = a \<and> \<not> save_rejected db c) (rev (c # cs)) =
      (case find (\<lambda>c. address c = a \<and> \<not> save_rejected db c) (rev cs) of
         Some x \<Rightarrow> Some x
       | None \<Rightarrow> if address c = a \<and> \<not> save_rejected db c then Some c else None)"
    by (simp add: find_snoc)
  show ?case
  proof (cases "find (\<lambda>c. address c = a \<and> \<not> save_rejected db c) (rev cs)")
    case (Some x)
    with IH show ?thesis unfolding saved_all_Cons split by simp
  next
    case None
    with IH have same: "filter (\<lambda>r. col_address r = a) (contracts (saved_all ?db1 cs))
              = filter (\<lambda>r. col_address r = a) (contracts ?db1)"
      by simp
    show ?thesis
    proof (cases "save_rejected db c")
      case True
      then obtain err where "saveContract db c = Inl err"
        using saveContract_rejected by blast
      then show ?thesis
        unfolding saved_all_Cons split using None same True by simp
    next
      case False
      note acc = saveContract_accepted [OF False]
      show ?thesis
      proof (cases "address c = a")
        case True
        have "filter (\<lambda>r. col_address r = a) (contracts ?db1) = [row_of (next_id db) c]"
          using True by (simp add: acc filter_same_address row_of_def)
        then have "\<exists>n. filter (\<lambda>r. col_address r = a) (contracts (saved_all ?db1 cs))
                     = [row_of n c]"
          using same by auto
        then show ?thesis
          unfolding saved_all_Cons split using None True False by simp
      next
        case diff: False
        have "filter (\<lambda>r. col_address r = a) (contracts ?db1)
                = filter (\<lambda>r. col_address r = a) (contracts db)"
          using diff filter_other_address [of a "address c" "contracts db"]
          by (auto simp: acc row_of_def)
        then show ?thesis
          unfolding saved_all_Cons split using None same diff by simp
      qed
    qed
  qed
qed

lemma saved_all_row_of_saved:
  assumes "c \<in> set cs" and "\<not> save_rejected db c"
  shows "\<exists>n c'. c' \<in> set cs \<and> \<not> save_rejected db c' \<and> address c' = address c
           \<and> filter (\<lambda>r. col_address r = address c) (contracts (saved_all db cs)) = [row_of n c']"
proof -
  let ?P = "\<lambda>x. address x = address c \<and> \<not> save_rejected db x"
  have "find ?P (rev cs) \<noteq> None"
    using assms by (auto simp: find_None_iff)
  then obtain c' where found: "find ?P (rev cs) = Some c'" by blast
  then have "c' \<in> set cs" "?P c'"
    using find_SomeD [OF found] by simp_all
  moreover obtain n where
    "filter (\<lambda>r. col_address r = address c) (contracts (saved_all db cs)) = [row_of n c']"
    using saved_all_rows [of "address c" db cs] found by auto
  ultimately show ?thesis by blast
qed

text \<open>\<open>saveContracts\<close>: the database after the saves, and one journal entry per record.\<close>

lemma saveContracts_Nil: "saveContracts sc [] = sc"
  by (simp add: saveContracts_def)

lemma saveContracts_Cons:
  "saveContracts sc (c # cs) =
     saveContracts
       (case saveContract (database sc) c of
          Inr saved \<Rightarrow> sc\<lparr>database := saved,
                           journal := journal sc @ [SaveContract c True]\<rparr>
        | Inl e \<Rightarrow> sc\<lparr>journal := journal sc @ [SaveContract c False]\<rparr>) cs"
  by (simp add: saveContracts_def)

lemma saveContracts_run:
  "saveContracts sc cs =
     sc\<lparr>database := saved_all (database sc) cs,
        journal := journal sc
                   @ map (\<lambda>c. SaveContract c (\<not> save_rejected (database sc) c)) cs\<rparr>"
proof (induction cs arbitrary: sc)
  case Nil
  show ?case by (simp add: saveContracts_Nil saved_all_Nil)
next
  case (Cons c cs)
  show ?case
  proof (cases "save_rejected (database sc) c")
    case True
    then obtain err where bad: "saveContract (database sc) c = Inl err"
      using saveContract_rejected by blast
    show ?thesis
      unfolding saveContracts_Cons saved_all_Cons bad
      by (simp add: Cons.IH True)
  next
    case False
    note acc = saveContract_accepted [OF False]
    let ?db1 = "(database sc)\<lparr>contracts := filter (\<lambda>r. col_address r \<noteq> address c)
                                   (contracts (database sc)) @ [row_of (next_id (database sc)) c],
                                next_id := Suc (next_id (database sc))\<rparr>"
    have rej: "save_rejected ?db1 c' = save_rejected (database sc) c'" for c'
      by (simp add: save_rejected_def)
    show ?thesis
      unfolding saveContracts_Cons saved_all_Cons acc
      by (simp add: Cons.IH rej False)
  qed
qed

lemma getBatchBlocks_Inr: "\<exists>blockResults. getBatchBlocks p s e = Inr blockResults"
  by (simp add: getBatchBlocks_def Let_def)

lemma detector_processBlock_Inr:
  "\<exists>cs. detector_processBlock d b = Inr cs"
  by (simp add: detector_processBlock_eq)

lemma the_detector_frame: "same_setup sc sc' \<Longrightarrow> the_detector sc' = the_detector sc"
  by (simp add: same_setup_def the_detector_def)

lemma the_detector_currentBlock [simp]:
  "the_detector (sc\<lparr>currentBlock := x\<rparr>) = the_detector sc"
  by (simp add: the_detector_def)

lemma the_detector_batchCalls [simp]:
  "the_detector (sc\<lparr>batchCalls := x\<rparr>) = the_detector sc"
  by (simp add: the_detector_def)

lemma detected_frame: "same_setup sc sc' \<Longrightarrow> detected sc' b = detected sc b"
  using the_detector_frame [of sc sc'] by (simp add: detected_def cong: option.case_cong)

text \<open>
  Processing one block: no exception, no error counted, and a save attempted for each
  detected record, in order.
\<close>

lemma scanner_processBlock_run:
  "\<exists>sc'. scanner_processBlock sc b = (Inr (), sc')
     \<and> same_setup sc sc' \<and> batchCalls sc' = batchCalls sc
     \<and> errors (stats sc') = errors (stats sc)
     \<and> database sc' = saved_all (database sc) (detected sc b)
     \<and> journal sc' = journal sc
         @ map (\<lambda>c. SaveContract c (\<not> save_rejected (database sc) c)) (detected sc b)"
proof (cases b)
  case None
  then show ?thesis
    by (simp add: scanner_processBlock_def detected_def same_setup_refl saved_all_Nil)
next
  case (Some blk)
  obtain cs where cs: "detector_processBlock (the_detector sc) (Some blk) = Inr cs"
    using detector_processBlock_Inr by blast
  have det: "detected sc b = cs"
    using Some cs by (simp add: detected_def)
  show ?thesis
  proof (cases "cs = []")
    case True
    then show ?thesis
      unfolding det using Some cs
      by (simp add: scanner_processBlock_def Let_def same_setup_def saved_all_Nil)
  next
    case False
    then show ?thesis
      unfolding det using Some cs
      by (simp add: scanner_processBlock_def Let_def same_setup_def saveContracts_run)
  qed
qed

lemma processBlocks_run:
  "\<exists>sc'. processBlocks sc bs = (None, sc')
     \<and> same_setup sc sc' \<and> batchCalls sc' = batchCalls sc
     \<and> errors (stats sc') = errors (stats sc)
     \<and> database sc' = saved_all (database sc) (concat (map (detected sc) bs))
     \<and> journal sc' = journal sc
         @ map (\<lambda>c. SaveContract c (\<not> save_rejected (database sc) c))
             (concat (map (detected sc) bs))"
proof (induction bs arbitrary: sc)
  case Nil
  show ?case by (simp add: same_setup_refl saved_all_Nil)
next
  case (Cons b bs)
  obtain sc1 where one: "scanner_processBlock sc b = (Inr (), sc1)"
    and stp1: "same_setup sc sc1" and calls1: "batchCalls sc1 = batchCalls sc"
    and err1: "errors (stats sc1) = errors (stats sc)"
    and db1: "database sc1 = saved_all (database sc) (detected sc b)"
    and j1: "journal sc1 = journal sc
         @ map (\<lambda>c. SaveContract c (\<not> save_rejected (database sc) c)) (detected sc b)"
    using scanner_processBlock_run [of sc b] by blast
  obtain sc2 where rest: "processBlocks sc1 bs = (None, sc2)"
    and stp2: "same_setup sc1 sc2" and calls2: "batchCalls sc2 = batchCalls sc1"
    and err2: "errors (stats sc2) = errors (stats sc1)"
    and db2: "database sc2 = saved_all (database sc1) (concat (map (detected sc1) bs))"
    and j2: "journal sc2 = journal sc1
         @ map (\<lambda>c. SaveContract c (\<not> save_rejected (database sc1) c))
             (concat (map (detected sc1) bs))"
    using Cons.IH [of sc1] by blast
  have det: "detected sc1 = detected sc"
    using stp1 by (intro ext detected_frame)
  have rej: "save_rejected (database sc1) c = save_rejected (database sc) c" for c
    unfolding db1 using saved_all_engine by (rule same_engine_rejected)
  have run: "processBlocks sc (b # bs) = (None, sc2)"
    using one rest by simp
  have "same_setup sc sc2" using stp1 stp2 by (rule same_setup_trans)
  moreover have "batchCalls sc2 = batchCalls sc" using calls1 calls2 by simp
  moreover have "errors (stats sc2) = errors (stats sc)" using err1 err2 by simp
  moreover have "database sc2 = saved_all (database sc) (concat (map (detected sc) (b # bs)))"
    unfolding db2 det db1 by (simp add: saved_all_append)
  moreover have "journal sc2 = journal sc
         @ map (\<lambda>c. SaveContract c (\<not> save_rejected (database sc) c))
             (concat (map (detected sc) (b # bs)))"
    unfolding j2 j1 det by (simp add: rej)
  ultimately show ?case using run by blast
qed

lemma batch_records_snd:
  "concat (map (detected sc) (map snd blockResults)) = batch_records sc blockResults"
  by (simp add: batch_records_def split_def comp_def)

lemma processBatch_run:
  assumes "getBatchBlocks (provider sc) s e = Inr blockResults"
  shows "\<exists>sc'. processBatch sc s e = (Inr (), sc')
     \<and> same_setup sc sc' \<and> batchCalls sc' = batchCalls sc @ [(s, e)]
     \<and> errors (stats sc') = errors (stats sc)
     \<and> database sc' = saved_all (database sc) (batch_records sc blockResults)
     \<and> journal sc' = journal sc
         @ map (\<lambda>c. SaveContract c (\<not> save_rejected (database sc) c))
             (batch_records sc blockResults)"
proof -
  let ?sc1 = "sc\<lparr>batchCalls := batchCalls sc @ [(s, e)]\<rparr>"
  obtain sc2 where run: "processBlocks ?sc1 (map snd blockResults) = (None, sc2)"
    and stp: "same_setup ?sc1 sc2" and calls: "batchCalls sc2 = batchCalls ?sc1"
    and err: "errors (stats sc2) = errors (stats ?sc1)"
    and db: "database sc2
               = saved_all (database ?sc1) (concat (map (detected ?sc1) (map snd blockResults)))"
    and j: "journal sc2 = journal ?sc1
         @ map (\<lambda>c. SaveContract c (\<not> save_rejected (database ?sc1) c))
             (concat (map (detected ?sc1) (map snd blockResults)))"
    using processBlocks_run [of ?sc1 "map snd blockResults"] by blast
  have det: "detected ?sc1 = detected sc"
    by (intro ext detected_frame) (simp add: same_setup_def)
  have res: "processBatch sc s e = (Inr (), sc2)"
    using assms run by (simp add: processBatch_def Let_def)
  have "same_setup sc sc2" using stp by (simp add: same_setup_def)
  moreover have "batchCalls sc2 = batchCalls sc @ [(s, e)]" using calls by simp
  moreover have "errors (stats sc2) = errors (stats sc)" using err by simp
  moreover have "database sc2 = saved_all (database sc) (batch_records sc blockResults)"
    using db unfolding det batch_records_snd by simp
  moreover have "journal sc2 = journal sc
         @ map (\<lambda>c. SaveContract c (\<not> save_rejected (database sc) c))
             (batch_records sc blockResults)"
    using j unfolding det batch_records_snd by simp
  ultimately show ?thesis using res by blast
qed

lemma find_replaced:
  "pr_network y = net \<Longrightarrow>
   find (\<lambda>r. pr_network r = net) (filter (\<lambda>r. pr_network r \<noteq> net) xs @ [y]) = Some y"
  by (induction xs) auto

lemma updateScanningProgress_cases:
  "(updateScanningProgress db net n mode = Inr
      (db\<lparr>scanning_progress := filter (\<lambda>r. pr_network r \<noteq> net) (scanning_progress db)
            @ [\<lparr>pr_network = net, pr_last_scanned_block = n, pr_scan_mode = mode\<rparr>]\<rparr>)
     \<and> isInitialized db \<and> db_open db \<and> \<not> sqlite_err db (InsertProgress net n mode))
   \<or> ((\<exists>err. updateScanningProgress db net n mode = Inl err)
       \<and> (\<not> isInitialized db \<or> \<not> db_open db \<or> sqlite_err db (InsertProgress net n mode)))"
  by (auto simp: updateScanningProgress_def)

lemma count_error_frame [simp]:
  "checkpoint (count_error sc) = checkpoint sc"
  "database (count_error sc) = database sc"
  "batchCalls (count_error sc) = batchCalls sc"
  "journal (count_error sc) = journal sc"
  "errors (stats (count_error sc)) = Suc (errors (stats sc))"
  "same_setup sc0 (count_error sc) = same_setup sc0 sc"
  by (simp_all add: checkpoint_def count_error_def same_setup_def)

text \<open>One pass of the loop body of \<open>scanBlockRange\<close>.\<close>

lemma scanBatch_run:
  assumes "getBatchBlocks (provider sc) s e = Inr blockResults"
  shows "same_setup sc (scanBatch sc s e)
   \<and> batchCalls (scanBatch sc s e) = batchCalls sc @ [(s, e)]
   \<and> journal (scanBatch sc s e)
       = journal sc
         @ map (\<lambda>c. SaveContract c (\<not> save_rejected (database sc) c))
             (batch_records sc blockResults)
         @ [UpdateScanningProgress e (\<not> progress_rejected sc e)]
   \<and> contracts (database (scanBatch sc s e))
       = contracts (saved_all (database sc) (batch_records sc blockResults))
   \<and> (if progress_rejected sc e then checkpoint (scanBatch sc s e) = checkpoint sc
       else checkpoint (scanBatch sc s e) = Some e)
   \<and> errors (stats (scanBatch sc s e))
       = errors (stats sc) + (if progress_rejected sc e then 1 else 0)"
proof -
  obtain sc1 where run: "processBatch sc s e = (Inr (), sc1)"
    and stp: "same_setup sc sc1" and calls: "batchCalls sc1 = batchCalls sc @ [(s, e)]"
    and err: "errors (stats sc1) = errors (stats sc)"
    and db: "database sc1 = saved_all (database sc) (batch_records sc blockResults)"
    and j: "journal sc1 = journal sc
         @ map (\<lambda>c. SaveContract c (\<not> save_rejected (database sc) c))
             (batch_records sc blockResults)"
    using processBatch_run [OF assms] by blast
  have eng: "same_engine (database sc) (database sc1)"
    unfolding db by (rule saved_all_engine)
  have frame: "networkConfig sc1 = networkConfig sc" "scannerConfig sc1 = scannerConfig sc"
    "isInitialized (database sc1) = isInitialized (database sc)"
    "db_open (database sc1) = db_open (database sc)"
    "sqlite_err (database sc1) = sqlite_err (database sc)"
    "scanning_progress (database sc1) = scanning_progress (database sc)"
    using stp eng by (simp_all add: same_setup_def same_engine_def)
  have cp1: "checkpoint sc1 = checkpoint sc"
    by (simp add: checkpoint_def frame)
  let ?net = "nc_name (networkConfig sc)" and ?mode = "scanMode (scannerConfig sc)"
  from updateScanningProgress_cases [of "database sc1" ?net e ?mode]
  consider
    (ok) "updateScanningProgress (database sc1) ?net e ?mode = Inr
      ((database sc1)\<lparr>scanning_progress :=
          filter (\<lambda>r. pr_network r \<noteq> ?net) (scanning_progress (database sc1))
          @ [\<lparr>pr_network = ?net, pr_last_scanned_block = e, pr_scan_mode = ?mode\<rparr>]\<rparr>)"
      "\<not> progress_rejected sc e"
  | (bad) err where "updateScanningProgress (database sc1) ?net e ?mode = Inl err"
      "progress_rejected sc e"
    by (auto simp: progress_rejected_def frame)
  then show ?thesis
  proof cases
    case ok
    have res: "scanBatch sc s e = sc1\<lparr>database := (database sc1)\<lparr>scanning_progress :=
          filter (\<lambda>r. pr_network r \<noteq> ?net) (scanning_progress (database sc1))
          @ [\<lparr>pr_network = ?net, pr_last_scanned_block = e, pr_scan_mode = ?mode\<rparr>]\<rparr>,
          journal := journal sc1 @ [UpdateScanningProgress e True]\<rparr>"
      using run ok(1) by (simp add: scanBatch_def frame)
    have "checkpoint (scanBatch sc s e) = Some e"
      unfolding res by (simp add: checkpoint_def frame find_replaced)
    then show ?thesis
      using ok(2) stp calls err j db by (simp add: res same_setup_def)
  next
    case bad
    have res: "scanBatch sc s e
                 = count_error (sc1\<lparr>journal := journal sc1 @ [UpdateScanningProgress e False]\<rparr>)"
      using run bad(1) by (simp add: scanBatch_def frame)
    have cp2: "checkpoint (sc1\<lparr>journal := journal sc1 @ [UpdateScanningProgress e False]\<rparr>)
                 = checkpoint sc"
      using cp1 by (simp add: checkpoint_def)
    have stp2: "same_setup sc (sc1\<lparr>journal := journal sc1 @ [UpdateScanningProgress e False]\<rparr>)"
      using stp by (simp add: same_setup_def)
    show ?thesis
      using bad(2) stp2 calls err j db cp2 by (simp add: res)
  qed
qed

lemma scanBatch_effect:
  "same_setup sc (scanBatch sc s e) \<and> batchCalls (scanBatch sc s e) = batchCalls sc @ [(s, e)]
   \<and> (if progress_rejected sc e then checkpoint (scanBatch sc s e) = checkpoint sc
       else checkpoint (scanBatch sc s e) = Some e)"
proof -
  obtain blockResults where "getBatchBlocks (provider sc) s e = Inr blockResults"
    using getBatchBlocks_Inr by blast
  from scanBatch_run [OF this] show ?thesis by simp
qed

text \<open>
  Claim C2, as the code has it. For a batch whose blocks were fetched, the body of the
  scan loop calls the database in this order: \<open>saveContract\<close> once for each record
  detected in the fetched blocks, then \<open>updateScanningProgress\<close> once, with the batch's
  last block number; no progress update comes before a save of the batch. A save that
  is rejected (database not initialised or closed, engine error, null transaction
  hash) is one more entry of that sequence and nothing else: the progress update
  follows all the same and no error is counted. For a record whose save was accepted,
  the contracts table then holds exactly one row with the record's address, the row
  of a record of the batch with that address whose save was accepted. The checkpoint
  is the batch's last block number unless the progress update itself was rejected;
  then it is unchanged and one error is counted.
\<close>

theorem checkpoint_follows_save_attempts:
  assumes "getBatchBlocks (provider sc) s e = Inr blockResults"
  shows "journal (scanBatch sc s e)
           = journal sc
             @ map (\<lambda>c. SaveContract c (\<not> save_rejected (database sc) c))
                 (batch_records sc blockResults)
             @ [UpdateScanningProgress e (\<not> progress_rejected sc e)]
       \<and> (\<forall>c \<in> set (batch_records sc blockResults).
             save_rejected (database sc) c
             \<or> (\<exists>n c'. c' \<in> set (batch_records sc blockResults)
                     \<and> \<not> save_rejected (database sc) c' \<and> address c' = address c
                     \<and> filter (\<lambda>r. col_address r = address c)
                          (contracts (database (scanBatch sc s e))) = [row_of n c']))
       \<and> (if progress_rejected sc e then checkpoint (scanBatch sc s e) = checkpoint sc
           else checkpoint (scanBatch sc s e) = Some e)
       \<and> errors (stats (scanBatch sc s e))
           = errors (stats sc) + (if progress_rejected sc e then 1 else 0)"
proof -
  note run = scanBatch_run [OF assms]
  have rows: "save_rejected (database sc) c
             \<or> (\<exists>n c'. c' \<in> set (batch_records sc blockResults)
                     \<and> \<not> save_rejected (database sc) c' \<and> address c' = address c
                     \<and> filter (\<lambda>r. col_address r = address c)
                          (contracts (database (scanBatch sc s e))) = [row_of n c'])"
    if "c \<in> set (batch_records sc blockResults)" for c
  proof (cases "save_rejected (database sc) c")
    case True
    then show ?thesis by simp
  next
    case False
    have tbl: "contracts (database (scanBatch sc s e))
                 = contracts (saved_all (database sc) (batch_records sc blockResults))"
      using run by simp
    show ?thesis
      unfolding tbl using saved_all_row_of_saved [OF that False] by blast
  qed
  show ?thesis using run rows by blast
qed

lemma example_batch_fetched:
  "getBatchBlocks (provider example_scanner) 100 100 = Inr [(100, Some example_block)]"
  by code_simp

lemma example_batch_records:
  "batch_records example_scanner [(100, Some example_block)] =
     [deploy_record, deploy_record\<lparr>creationType := Some ''create2''\<rparr>,
      deploy_record\<lparr>address := child_address, transactionHash := Some ''0xeee'',
                    gasUsed := Some 50000, creationType := Some ''factory''\<rparr>]"
  by code_simp

theorem checkpoint_follows_save_attempts_witness:
  "getBatchBlocks (provider example_scanner) 100 100 = Inr [(100, Some example_block)]
   \<and> batch_records example_scanner [(100, Some example_block)] =
       [deploy_record, deploy_record\<lparr>creationType := Some ''create2''\<rparr>,
        deploy_record\<lparr>address := child_address, transactionHash := Some ''0xeee'',
                      gasUsed := Some 50000, creationType := Some ''factory''\<rparr>]
   \<and> journal (scanBatch example_scanner 100 100) =
       [SaveContract deploy_record True,
        SaveContract (deploy_record\<lparr>creationType := Some ''create2''\<rparr>) True,
        SaveContract (deploy_record\<lparr>address := child_address, transactionHash := Some ''0xeee'',
                        gasUsed := Some 50000, creationType := Some ''factory''\<rparr>) True,
        UpdateScanningProgress 100 True]
   \<and> (\<exists>n c'. address c' = address deploy_record
          \<and> filter (\<lambda>r. col_address r = address deploy_record)
               (contracts (database (scanBatch example_scanner 100 100))) = [row_of n c'])
   \<and> checkpoint (scanBatch example_scanner 100 100) = Some 100
   \<and> errors (stats (scanBatch example_scanner 100 100)) = 0"
proof -
  have acc: "\<not> save_rejected (database example_scanner) c" if "transactionHash c \<noteq> None" for c
    using that
    by (simp add: save_rejected_def example_scanner_def empty_db_def accepts_all_def)
  have accs: "\<not> save_rejected (database example_scanner) deploy_record"
    "\<not> save_rejected (database example_scanner) (deploy_record\<lparr>creationType := Some ''create2''\<rparr>)"
    "\<not> save_rejected (database example_scanner)
        (deploy_record\<lparr>address := child_address, transactionHash := Some ''0xeee'',
                        gasUsed := Some 50000, creationType := Some ''factory''\<rparr>)"
    by (rule acc, simp add: deploy_record_def)+
  have upd: "\<not> progress_rejected example_scanner 100"
    by (simp add: progress_rejected_def example_scanner_def empty_db_def accepts_all_def)
  have j0: "journal example_scanner = []" "errors (stats example_scanner) = 0"
    by (simp_all add: example_scanner_def no_stats_def)
  note inst = checkpoint_follows_save_attempts [OF example_batch_fetched,
               unfolded example_batch_records]
  have mem: "deploy_record \<in> set [deploy_record, deploy_record\<lparr>creationType := Some ''create2''\<rparr>,
        deploy_record\<lparr>address := child_address, transactionHash := Some ''0xeee'',
                      gasUsed := Some 50000, creationType := Some ''factory''\<rparr>]"
    by simp
  from inst have ball: "\<forall>c \<in> set [deploy_record, deploy_record\<lparr>creationType := Some ''create2''\<rparr>,
        deploy_record\<lparr>address := child_address, transactionHash := Some ''0xeee'',
                      gasUsed := Some 50000, creationType := Some ''factory''\<rparr>].
             save_rejected (database example_scanner) c
             \<or> (\<exists>n c'. c' \<in> set [deploy_record, deploy_record\<lparr>creationType := Some ''create2''\<rparr>,
        deploy_record\<lparr>address := child_address, transactionHash := Some ''0xeee'',
                      gasUsed := Some 50000, creationType := Some ''factory''\<rparr>]
                     \<and> \<not> save_rejected (database example_scanner) c' \<and> address c' = address c
                     \<and> filter (\<lambda>r. col_address r = address c)
                          (contracts (database (scanBatch example_scanner 100 100))) = [row_of n c'])"
    by blast
  from bspec [OF ball mem] accs(1)
  have row: "\<exists>n c'. address c' = address deploy_record
          \<and> filter (\<lambda>r. col_address r = address deploy_record)
               (contracts (database (scanBatch example_scanner 100 100))) = [row_of n c']"
    by blast
  from inst have jr: "journal (scanBatch example_scanner 100 100) =
       [SaveContract deploy_record True,
        SaveContract (deploy_record\<lparr>creationType := Some ''create2''\<rparr>) True,
        SaveContract (deploy_record\<lparr>address := child_address, transactionHash := Some ''0xeee'',
                        gasUsed := Some 50000, creationType := Some ''factory''\<rparr>) True,
        UpdateScanningProgress 100 True]"
    using accs upd j0 by simp
  from inst have cp: "checkpoint (scanBatch example_scanner 100 100) = Some 100"
    and er: "errors (stats (scanBatch example_scanner 100 100)) = 0"
    using upd j0 by simp_all
  show ?thesis
    using example_batch_fetched example_batch_records jr row cp er by blast
qed

text \<open>
  Claim C2 as stated (the checkpoint never advances past a block whose detected records
  were not persisted) fails: with an engine that rejects every insert into \<open>contracts\<close>,
  the batch [100, 100] detects three records, attempts and fails the three saves,
  stores none, counts no error, and then moves the checkpoint to 100.
\<close>

theorem checkpoint_past_unsaved_records_counterexample:
  "getBatchBlocks (provider faulty_scanner) 100 100 = Inr [(100, Some example_block)]
   \<and> detector_processBlock (the_detector faulty_scanner) (Some example_block) =
       Inr [deploy_record, deploy_record\<lparr>creationType := Some ''create2''\<rparr>,
            deploy_record\<lparr>address := child_address, transactionHash := Some ''0xeee'',
                          gasUsed := Some 50000, creationType := Some ''factory''\<rparr>]
   \<and> checkpoint faulty_scanner = None
   \<and> checkpoint (scanBatch faulty_scanner 100 100) = Some 100
   \<and> contracts (database (scanBatch faulty_scanner 100 100)) = []
   \<and> errors (stats (scanBatch faulty_scanner 100 100)) = 0
   \<and> journal (scanBatch faulty_scanner 100 100) =
       [SaveContract deploy_record False,
        SaveContract (deploy_record\<lparr>creationType := Some ''create2''\<rparr>) False,
        SaveContract (deploy_record\<lparr>address := child_address, transactionHash := Some ''0xeee'',
                        gasUsed := Some 50000, creationType := Some ''factory''\<rparr>) False,
        UpdateScanningProgress 100 True]"
  by code_simp



section \<open>The historical pass\<close>

lemma upto_batch:
  assumes "cs \<le> e" and "0 < bs"
  shows "[cs..min (cs + bs - 1) e] @ [cs + bs..e] = [cs..e]"
proof (cases "cs + bs \<le> e")
  case True
  then have "min (cs + bs - 1) e = cs + bs - 1" by simp
  moreover have "[cs..e] = [cs..cs + bs - 1] @ [cs + bs..e]"
    using upto_split1 [of cs "cs + bs" e] assms True by simp
  ultimately show ?thesis by simp
next
  case False
  then have "min (cs + bs - 1) e = e" "[cs + bs..e] = []" by simp_all
  then show ?thesis by simp
qed

lemma blocks_of_append: "blocks_of (xs @ ys) = blocks_of xs @ blocks_of ys"
  by (simp add: blocks_of_def)

lemma scanBlockRange_loop_covers:
  assumes "isRunning sc" and "\<not> isPaused sc" and "0 < bs"
  shows "\<exists>sc' calls. scanBlockRange_loop sc bs e cs = Some sc' \<and> same_setup sc sc'
           \<and> batchCalls sc' = batchCalls sc @ calls \<and> blocks_of calls = [cs..e]
           \<and> list_all (\<lambda>(a, b). cs \<le> a \<and> a \<le> b \<and> b \<le> e \<and> b < a + bs) calls"
  using assms(1,2)
proof (induction "nat (e + 1 - cs)" arbitrary: sc cs rule: less_induct)
  case less
  show ?case
  proof (cases "cs \<le> e")
    case False
    then have "scanBlockRange_loop sc bs e cs = Some sc"
      by (subst scanBlockRange_loop.simps) simp
    moreover have "blocks_of [] = [cs..e]" using False by (simp add: blocks_of_def)
    ultimately show ?thesis
      by (intro exI[where x=sc] exI[where x="[]"]) (simp add: same_setup_refl)
  next
    case True
    let ?ce = "min (cs + bs - 1) e"
    let ?sc1 = "scanBatch sc cs ?ce"
    have step: "scanBlockRange_loop sc bs e cs = scanBlockRange_loop ?sc1 bs e (cs + bs)"
      using True less.prems assms(3) by (subst scanBlockRange_loop.simps) simp
    have eff: "same_setup sc ?sc1" "batchCalls ?sc1 = batchCalls sc @ [(cs, ?ce)]"
      using scanBatch_effect [of sc cs ?ce] by simp_all
    then have run1: "isRunning ?sc1" "\<not> isPaused ?sc1"
      using less.prems by (simp_all add: same_setup_def)
    have "nat (e + 1 - (cs + bs)) < nat (e + 1 - cs)" using True assms(3) by simp
    from less.hyps [OF this run1] obtain sc' calls where
      res: "scanBlockRange_loop ?sc1 bs e (cs + bs) = Some sc'" "same_setup ?sc1 sc'"
        "batchCalls sc' = batchCalls ?sc1 @ calls" "blocks_of calls = [cs + bs..e]"
        "list_all (\<lambda>(a, b). cs + bs \<le> a \<and> a \<le> b \<and> b \<le> e \<and> b < a + bs) calls"
      by blast
    have cover: "blocks_of ((cs, ?ce) # calls) = [cs..e]"
      using res(4) upto_batch [OF True assms(3)] by (simp add: blocks_of_def)
    have bounds: "list_all (\<lambda>(a, b). cs \<le> a \<and> a \<le> b \<and> b \<le> e \<and> b < a + bs) ((cs, ?ce) # calls)"
      using res(5) True assms(3) by (auto simp: list_all_iff)
    show ?thesis
      unfolding step
      using res(1,3) eff cover bounds same_setup_trans [OF eff(1) res(2)]
      by (intro exI[where x=sc'] exI[where x="(cs, ?ce) # calls"]) simp
  qed
qed

text \<open>
  A single historical pass of a running scanner with a positive batch size: the resolved
  range is cut into consecutive batches, and every block number of the range is in
  exactly one of the batch calls, in ascending order. The resolved start is the
  maximum of the configured start and the checkpoint plus one when a checkpoint other
  than 0 is saved; an empty resolved range aborts the start without any batch call.
\<close>

lemma historical_pass_covers_range:
  assumes "\<not> isRunning sc" and "\<not> isPaused sc"
    and "scanMode (scannerConfig sc) = ''historical''"
    and "0 < batchSize (scannerConfig sc)"
    and "getLatestBlockNumber (provider sc) = Inr latest"
    and "getScanningProgress (database sc) (nc_name (networkConfig sc)) = Inr progress"
    and "\<forall>row. progress = Some row \<longrightarrow> pr_last_scanned_block row \<noteq> 0"
    and "resolvedStart = (case progress of
                            None \<Rightarrow> resolve (startBlock (scannerConfig sc)) latest
                          | Some row \<Rightarrow> max (resolve (startBlock (scannerConfig sc)) latest)
                                           (pr_last_scanned_block row + 1))"
    and "resolvedEnd = resolve (endBlock (scannerConfig sc)) latest"
  shows "if resolvedStart \<le> resolvedEnd
         then \<exists>sc'. start sc = Some (Inr (), sc')
                \<and> blocks_of (batchCalls sc') = blocks_of (batchCalls sc) @ [resolvedStart..resolvedEnd]
         else \<exists>err. start sc = Some (Inl err, sc)"
proof -
  let ?sc1 = "sc\<lparr>isRunning := True\<rparr>"
  have entry: "start_entry sc = Some ?sc1" using assms(1) by (simp add: start_entry_def)
  have range: "determineBlockRange ?sc1 =
      (if resolvedStart > resolvedEnd then Inl (Error ''Invalid block range'')
       else Inr (resolvedStart, resolvedEnd))"
    using assms(5-9) by (cases progress) (simp_all add: determineBlockRange_def Let_def)
  show ?thesis
  proof (cases "resolvedStart \<le> resolvedEnd")
    case False
    have undone: "?sc1\<lparr>isRunning := False\<rparr> = sc" using assms(1) by simp
    have "start sc = Some (Inl (Error ''Invalid block range''), sc)"
      using False entry range assms(3) undone
      by (simp add: start_def startHistoricalScanning_def Let_def)
    with False show ?thesis by simp
  next
    case True
    have "isRunning ?sc1" "\<not> isPaused ?sc1" using assms(2) by simp_all
    from scanBlockRange_loop_covers [OF this assms(4), of resolvedEnd resolvedStart]
    obtain sc' calls where
      res: "scanBlockRange_loop ?sc1 (batchSize (scannerConfig sc)) resolvedEnd resolvedStart = Some sc'"
        "batchCalls sc' = batchCalls ?sc1 @ calls" "blocks_of calls = [resolvedStart..resolvedEnd]"
      by blast
    have "start sc = Some (Inr (), sc')"
      using True entry range assms(3) res(1)
      by (simp add: start_def startHistoricalScanning_def scanBlockRange_def Let_def)
    moreover have "blocks_of (batchCalls sc') = blocks_of (batchCalls sc) @ [resolvedStart..resolvedEnd]"
      using res(2,3) by (simp add: blocks_of_append)
    ultimately show ?thesis using True by simp
  qed
qed

text \<open>
  The pass over [100, 103] with batch size 2 on the example endpoint: two batch calls,
  four blocks processed, checkpoint 103.
\<close>

lemma two_batches_scenario:
  "map_option batchCalls (scanBlockRange example_scanner 100 103) = Some [(100, 101), (102, 103)]
   \<and> map_option checkpoint (scanBlockRange example_scanner 100 103) = Some (Some 103)
   \<and> map_option (\<lambda>sc. blocksProcessed (stats sc)) (scanBlockRange example_scanner 100 103)
       = Some 4"
  by code_simp

lemma historical_pass_example:
  "\<exists>sc'. start (example_scanner\<lparr>isRunning := False\<rparr>) = Some (Inr (), sc')
         \<and> blocks_of (batchCalls sc') = [100, 101, 102, 103]"
proof -
  let ?sc = "example_scanner\<lparr>isRunning := False\<rparr>"
  have latest: "getLatestBlockNumber (provider ?sc) = Inr 100" by code_simp
  have prog: "getScanningProgress (database ?sc) (nc_name (networkConfig ?sc)) = Inr None"
    by code_simp
  have cfg: "\<not> isRunning ?sc" "\<not> isPaused ?sc" "scanMode (scannerConfig ?sc) = ''historical''"
    "0 < batchSize (scannerConfig ?sc)"
    by (simp_all add: example_scanner_def)
  have none: "\<forall>row. (None :: progress_row option) = Some row \<longrightarrow> pr_last_scanned_block row \<noteq> 0"
    by simp
  have first: "100 = (case (None :: progress_row option) of
                        None \<Rightarrow> resolve (startBlock (scannerConfig ?sc)) 100
                      | Some row \<Rightarrow> max (resolve (startBlock (scannerConfig ?sc)) 100)
                                       (pr_last_scanned_block row + 1))"
    and last: "103 = resolve (endBlock (scannerConfig ?sc)) 100"
    by (simp_all add: example_scanner_def resolve_def)
  have calls: "blocks_of (batchCalls example_scanner) = []"
    by (simp add: example_scanner_def blocks_of_def)
  have range: "[100..103] = [100, 101, 102, 103 :: int]" by code_simp
  from historical_pass_covers_range [OF cfg latest prog none first last]
  show ?thesis by (simp add: calls range)
qed

text \<open>
  Claim C1 at a saved checkpoint of 0. With the configured range [0, 0] and the
  checkpoint row (Ethereum Mainnet, 0) saved, the claim's resolved start is
  \<open>max 0 (0 + 1) = 1\<close>, which exceeds the end, so the scan should abort. The code
  treats \<open>last_scanned_block = 0\<close> as no checkpoint: the range is resolved to [0, 0]
  and \<open>start\<close> fetches the batch (0, 0) again.
\<close>

theorem checkpoint_zero_is_rescanned:
  "scanning_progress (database genesis_scanner) =
     [\<lparr>pr_network = ''Ethereum Mainnet'', pr_last_scanned_block = 0,
       pr_scan_mode = ''historical''\<rparr>]
   \<and> startBlock (scannerConfig genesis_scanner) = BlockNumber 0
   \<and> endBlock (scannerConfig genesis_scanner) = BlockNumber 0
   \<and> determineBlockRange genesis_scanner = Inr (0, 0)
   \<and> calls_made (start genesis_scanner) = Some [(0, 0)]"
  by code_simp


theorem checkpoint_zero_is_rescanned_witness:
  "determineBlockRange genesis_scanner = Inr (0, 0)"
  using checkpoint_zero_is_rescanned by blast

section \<open>Stop and start\<close>











end
